theory Spec2Isabelle
  imports Complex_Main "HOL-Library.Word" "HOL-Library.AList" "HOL-Library.Log_Nat"
begin

unbundle bit_operations_syntax

section \<open>Numbers\<close>

text \<open>
  A JavaScript number is an IEEE double. The model has the rationals for the finite
  numbers, and the arithmetic of the source rounds: every function that computes with
  numbers takes the rounding \<open>fl\<close> as its first argument, and the result of an
  operation of the source is \<open>fl\<close> of the exact result. The rounding of the source is
  \<open>roundDouble\<close>; overflow to an infinity and the loss of precision of the subnormal
  numbers are not modelled. Where the source can produce a number that is not finite (a read of a missing
  array element used in arithmetic, a division by zero), the model uses \<open>rat option\<close>:
  \<open>None\<close> stands for NaN and for the two infinities, which the functions below never
  tell apart.
\<close>

type_synonym rounding = "rat \<Rightarrow> rat"

definition exact :: rounding where
  \<comment> \<open>arithmetic without rounding\<close>
  "exact x = x"

definition pow2 :: "int \<Rightarrow> rat" where
  \<comment> \<open>the power of two with an integer exponent\<close>
  "pow2 e = (if 0 \<le> e then 2 ^ nat e else 1 / 2 ^ nat (- e))"

definition binade :: "rat \<Rightarrow> int" where
  \<comment> \<open>the exponent \<open>e\<close> of a number that is not zero: \<open>2 ^ e \<le> \<bar>x\<bar> < 2 ^ (e + 1)\<close>\<close>
  "binade x =
     (if 1 \<le> \<bar>x\<bar> then bitlen \<lfloor>\<bar>x\<bar>\<rfloor> - 1 else - bitlen (\<lceil>1 / \<bar>x\<bar>\<rceil> - 1))"

definition roundEven :: "rat \<Rightarrow> int" where
  \<comment> \<open>the nearest integer, the even one of the two when they are equally near\<close>
  "roundEven y =
     (let f = \<lfloor>y\<rfloor> in
      if y - of_int f < 1 / 2 then f
      else if 1 / 2 < y - of_int f then f + 1
      else if even f then f else f + 1)"

definition roundDouble :: rounding where
  \<comment> \<open>rounding to the nearest number with a significand of 53 bits, ties to even: the
      rounding of IEEE double arithmetic, with no bound on the exponent\<close>
  "roundDouble x =
     (if x = 0 then 0
      else of_int (roundEven (x / pow2 (binade x - 52))) * pow2 (binade x - 52))"

definition doubleRounding :: "rounding \<Rightarrow> bool" where
  \<comment> \<open>two properties of rounding to the nearest double: the integers up to \<open>2 ^ 53\<close> in
      magnitude are not changed, and between \<open>2 ^ -53\<close> and \<open>2 ^ 53\<close> in magnitude the
      relative error is at most \<open>2 ^ -53\<close>\<close>
  "doubleRounding fl =
     ((\<forall>z :: int. \<bar>z\<bar> \<le> 2 ^ 53 \<longrightarrow> fl (of_int z) = of_int z)
      \<and> (\<forall>x. 1 / 2 ^ 53 \<le> \<bar>x\<bar> \<and> \<bar>x\<bar> \<le> 2 ^ 53 \<longrightarrow> \<bar>fl x - x\<bar> \<le> \<bar>x\<bar> / 2 ^ 53))"

definition jsTrunc :: "rat \<Rightarrow> int" where
  \<comment> \<open>rounding towards zero, the first step of every integer conversion\<close>
  "jsTrunc q = (if 0 \<le> q then \<lfloor>q\<rfloor> else \<lceil>q\<rceil>)"

definition ToInt32 :: "rat \<Rightarrow> int" where
  \<comment> \<open>\<open>q | 0\<close> for a finite \<open>q\<close>: truncate, then wrap into the signed 32-bit range\<close>
  "ToInt32 q = (jsTrunc q + 2 ^ 31) mod 2 ^ 32 - 2 ^ 31"

definition numAdd :: "rounding \<Rightarrow> rat option \<Rightarrow> rat option \<Rightarrow> rat option" where
  "numAdd fl a b = (case (a, b) of (Some x, Some y) \<Rightarrow> Some (fl (x + y)) | _ \<Rightarrow> None)"

definition numSub :: "rounding \<Rightarrow> rat option \<Rightarrow> rat option \<Rightarrow> rat option" where
  "numSub fl a b = (case (a, b) of (Some x, Some y) \<Rightarrow> Some (fl (x - y)) | _ \<Rightarrow> None)"

definition numMul :: "rounding \<Rightarrow> rat option \<Rightarrow> rat option \<Rightarrow> rat option" where
  "numMul fl a b = (case (a, b) of (Some x, Some y) \<Rightarrow> Some (fl (x * y)) | _ \<Rightarrow> None)"

definition numDivBy :: "rounding \<Rightarrow> rat option \<Rightarrow> rat \<Rightarrow> rat option" where
  \<comment> \<open>\<open>a / m\<close> for a finite \<open>m\<close>; a zero \<open>m\<close> gives NaN or an infinity\<close>
  "numDivBy fl a m =
     (case a of Some x \<Rightarrow> (if m = 0 then None else Some (fl (x / m))) | None \<Rightarrow> None)"

definition divToInt32 :: "rounding \<Rightarrow> rat option \<Rightarrow> rat option \<Rightarrow> int" where
  \<comment> \<open>\<open>(a / d) | 0\<close>. NaN and the infinities convert to 0, and a finite number divided
      by an infinity is 0, so every case with a non-finite operand or a zero \<open>d\<close> is 0.\<close>
  "divToInt32 fl a d =
     (case (a, d) of
        (Some x, Some y) \<Rightarrow> (if y = 0 then 0 else ToInt32 (fl (x / y)))
      | _ \<Rightarrow> 0)"

section \<open>Height buffers\<close>

text \<open>
  The height buffer is whatever array the caller supplied: a plain \<open>Array\<close> or an
  integer typed array (the floating-point typed arrays are not modelled). A cell that
  holds \<open>None\<close> is a hole, \<open>undefined\<close> or a non-finite number: all of them read as a
  non-finite number in the arithmetic of this file.
\<close>

datatype elementType = ArrayElement | Uint8 | Uint16 | Uint32 | Int8 | Int16 | Int32

record heightBuffer =
  bufferType :: elementType
  bufferLength :: nat
  cells :: "int \<Rightarrow> rat option"

fun coerceElement :: "elementType \<Rightarrow> rat option \<Rightarrow> rat option" where
  "coerceElement ArrayElement v = v"
| "coerceElement Uint8 v = Some (of_int (case v of None \<Rightarrow> 0 | Some q \<Rightarrow> jsTrunc q mod 2 ^ 8))"
| "coerceElement Uint16 v = Some (of_int (case v of None \<Rightarrow> 0 | Some q \<Rightarrow> jsTrunc q mod 2 ^ 16))"
| "coerceElement Uint32 v = Some (of_int (case v of None \<Rightarrow> 0 | Some q \<Rightarrow> jsTrunc q mod 2 ^ 32))"
| "coerceElement Int8 v =
     Some (of_int (case v of None \<Rightarrow> 0 | Some q \<Rightarrow> (jsTrunc q + 2 ^ 7) mod 2 ^ 8 - 2 ^ 7))"
| "coerceElement Int16 v =
     Some (of_int (case v of None \<Rightarrow> 0 | Some q \<Rightarrow> (jsTrunc q + 2 ^ 15) mod 2 ^ 16 - 2 ^ 15))"
| "coerceElement Int32 v =
     Some (of_int (case v of None \<Rightarrow> 0 | Some q \<Rightarrow> (jsTrunc q + 2 ^ 31) mod 2 ^ 32 - 2 ^ 31))"

definition inBounds :: "heightBuffer \<Rightarrow> int \<Rightarrow> bool" where
  "inBounds b k = (0 \<le> k \<and> k < int (bufferLength b))"

definition readElement :: "heightBuffer \<Rightarrow> int \<Rightarrow> rat option" where
  \<comment> \<open>\<open>heights[k]\<close> as an operand: outside a typed array it is \<open>undefined\<close>\<close>
  "readElement b k =
     (if bufferType b = ArrayElement \<or> inBounds b k then cells b k else None)"

definition writeElement :: "heightBuffer \<Rightarrow> int \<Rightarrow> rat option \<Rightarrow> heightBuffer" where
  \<comment> \<open>\<open>heights[k] = v\<close>: a plain array takes any key and grows; a typed array converts
      the value to its element type and ignores a key outside its bounds\<close>
  "writeElement b k v =
     (if bufferType b = ArrayElement
      then b\<lparr>bufferLength := (if 0 \<le> k then max (bufferLength b) (nat (k + 1)) else bufferLength b),
             cells := (cells b)(k := v)\<rparr>
      else if inBounds b k
      then b\<lparr>cells := (cells b)(k := coerceElement (bufferType b) v)\<rparr>
      else b)"

definition bufferOfList :: "elementType \<Rightarrow> rat list \<Rightarrow> heightBuffer" where
  \<comment> \<open>the array whose elements are the given numbers, in order\<close>
  "bufferOfList ty xs =
     \<lparr>bufferType = ty, bufferLength = length xs,
      cells = (\<lambda>k. if 0 \<le> k \<and> k < int (length xs) then Some (xs ! nat k) else None)\<rparr>"

definition newBuffer :: "elementType \<Rightarrow> nat \<Rightarrow> heightBuffer" where
  \<comment> \<open>\<open>new this._bufferType(n)\<close>: holes in a plain array, zeros in a typed array\<close>
  "newBuffer ty n =
     \<lparr>bufferType = ty, bufferLength = n,
      cells = (\<lambda>k. if ty \<noteq> ArrayElement \<and> 0 \<le> k \<and> k < int n then Some 0 else None)\<rparr>"

text \<open>
  The digits of an element multiplier \<open>m\<close> are the integers from 0 to \<open>m - 1\<close>;
  \<open>digitsFit\<close> says that the element type of a buffer holds each of them unchanged.
\<close>

fun digitsFit :: "elementType \<Rightarrow> int \<Rightarrow> bool" where
  "digitsFit ArrayElement m = True"
| "digitsFit Uint8 m = (m \<le> 2 ^ 8)"
| "digitsFit Uint16 m = (m \<le> 2 ^ 16)"
| "digitsFit Uint32 m = (m \<le> 2 ^ 32)"
| "digitsFit Int8 m = (m \<le> 2 ^ 7)"
| "digitsFit Int16 m = (m \<le> 2 ^ 15)"
| "digitsFit Int32 m = (m \<le> 2 ^ 31)"

section \<open>The height codec\<close>

definition accumulate :: "rounding \<Rightarrow> rat option \<Rightarrow> rat \<Rightarrow> rat option \<Rightarrow> rat option" where
  \<comment> \<open>\<open>(height * elementMultiplier) + heights[index + i]\<close>\<close>
  "accumulate fl h m c =
     (case (h, c) of (Some a, Some x) \<Rightarrow> Some (fl (fl (a * m) + x)) | _ \<Rightarrow> None)"

fun getHeightBE ::
  "rounding \<Rightarrow> heightBuffer \<Rightarrow> rat \<Rightarrow> int \<Rightarrow> int \<Rightarrow> nat \<Rightarrow> rat option \<Rightarrow> rat option" where
  \<comment> \<open>\<open>for (; i < elementsPerHeight; ++i)\<close>, with \<open>k\<close> iterations left\<close>
  "getHeightBE fl heights m index i 0 h = h"
| "getHeightBE fl heights m index i (Suc k) h =
     getHeightBE fl heights m index (i + 1) k (accumulate fl h m (readElement heights (index + i)))"

fun getHeightLE ::
  "rounding \<Rightarrow> heightBuffer \<Rightarrow> rat \<Rightarrow> int \<Rightarrow> nat \<Rightarrow> rat option \<Rightarrow> rat option" where
  \<comment> \<open>\<open>for (i = elementsPerHeight - 1; i >= 0; --i)\<close>; the argument is \<open>i + 1\<close>\<close>
  "getHeightLE fl heights m index 0 h = h"
| "getHeightLE fl heights m index (Suc i) h =
     getHeightLE fl heights m index i (accumulate fl h m (readElement heights (index + int i)))"

definition getHeight ::
  "rounding \<Rightarrow> heightBuffer \<Rightarrow> nat \<Rightarrow> rat \<Rightarrow> int \<Rightarrow> bool \<Rightarrow> int \<Rightarrow> rat option" where
  "getHeight fl heights elementsPerHeight elementMultiplier stride isBigEndian index =
     (let index = index * stride in
      if isBigEndian
      then getHeightBE fl heights elementMultiplier index 0 elementsPerHeight (Some 0)
      else getHeightLE fl heights elementMultiplier index elementsPerHeight (Some 0))"

definition setDigit ::
  "rounding \<Rightarrow> heightBuffer \<Rightarrow> rat \<Rightarrow> int \<Rightarrow> rat option \<Rightarrow> rat option
    \<Rightarrow> heightBuffer \<times> rat option \<times> rat option" where
  \<comment> \<open>one pass of either loop body of \<open>setHeight\<close>, at buffer position \<open>p = index + i\<close>\<close>
  "setDigit fl heights m p height divisor =
     (let heights = writeElement heights p (Some (of_int (divToInt32 fl height divisor)));
          height = numSub fl height (numMul fl (readElement heights p) divisor);
          divisor = numDivBy fl divisor m
      in (heights, height, divisor))"

fun setHeightBE ::
  "rounding \<Rightarrow> heightBuffer \<Rightarrow> rat \<Rightarrow> int \<Rightarrow> int \<Rightarrow> nat \<Rightarrow> rat option \<Rightarrow> rat option
    \<Rightarrow> heightBuffer \<times> rat option \<times> rat option" where
  \<comment> \<open>\<open>for (i = 0; i < elementsPerHeight - 1; ++i)\<close>, with \<open>k\<close> iterations left\<close>
  "setHeightBE fl heights m index i 0 height divisor = (heights, height, divisor)"
| "setHeightBE fl heights m index i (Suc k) height divisor =
     (case setDigit fl heights m (index + i) height divisor of
        (heights, height, divisor) \<Rightarrow> setHeightBE fl heights m index (i + 1) k height divisor)"

fun setHeightLE ::
  "rounding \<Rightarrow> heightBuffer \<Rightarrow> rat \<Rightarrow> int \<Rightarrow> nat \<Rightarrow> rat option \<Rightarrow> rat option
    \<Rightarrow> heightBuffer \<times> rat option \<times> rat option" where
  \<comment> \<open>\<open>for (i = elementsPerHeight - 1; i > 0; --i)\<close>; the argument is \<open>i\<close>\<close>
  "setHeightLE fl heights m index 0 height divisor = (heights, height, divisor)"
| "setHeightLE fl heights m index (Suc i) height divisor =
     (case setDigit fl heights m (index + int (Suc i)) height divisor of
        (heights, height, divisor) \<Rightarrow> setHeightLE fl heights m index i height divisor)"

definition setHeight ::
  "rounding \<Rightarrow> heightBuffer \<Rightarrow> nat \<Rightarrow> rat \<Rightarrow> rat option \<Rightarrow> int \<Rightarrow> bool \<Rightarrow> int \<Rightarrow> rat option
    \<Rightarrow> heightBuffer" where
  \<comment> \<open>After the big-endian loop \<open>i\<close> is \<open>elementsPerHeight - 1\<close>, or 0 when the loop
      never ran; after the little-endian loop it is 0, or \<open>-1\<close> when
      \<open>elementsPerHeight\<close> is 0.\<close>
  "setHeight fl heights elementsPerHeight elementMultiplier divisor stride isBigEndian index height =
     (let index = index * stride in
      if isBigEndian
      then (case setHeightBE fl heights elementMultiplier index 0 (elementsPerHeight - 1) height
                   divisor of
              (heights, height, divisor) \<Rightarrow>
                writeElement heights (index + int (elementsPerHeight - 1)) height)
      else (case setHeightLE fl heights elementMultiplier index (elementsPerHeight - 1) height
                   divisor of
              (heights, height, divisor) \<Rightarrow>
                writeElement heights (index + (if elementsPerHeight = 0 then - 1 else 0)) height))"

definition powDivisor :: "rounding \<Rightarrow> rat \<Rightarrow> nat \<Rightarrow> rat option" where
  \<comment> \<open>\<open>Math.pow(elementMultiplier, elementsPerHeight - 1)\<close>, the divisor that \<open>upsample\<close>
      passes to \<open>setHeight\<close>: the power, rounded\<close>
  "powDivisor fl m n =
     (if n = 0 then (if m = 0 then None else Some (fl (1 / m))) else Some (fl (m ^ (n - 1))))"

section \<open>Interpolation\<close>

record rectangle =
  west :: rat
  south :: rat
  east :: rat
  north :: rat

definition triangleInterpolateHeight ::
  "rounding \<Rightarrow> rat \<Rightarrow> rat \<Rightarrow> rat option \<Rightarrow> rat option \<Rightarrow> rat option \<Rightarrow> rat option \<Rightarrow> rat option" where
  \<comment> \<open>The tessellator bisects the quad from southwest to northeast. The two offsets are
      finite; a corner height may be non-finite, and it makes the result non-finite when
      the formula that is taken uses it.\<close>
  "triangleInterpolateHeight fl dX dY southwestHeight southeastHeight northwestHeight
       northeastHeight =
     (if dY < dX
      then numAdd fl
             (numAdd fl southwestHeight
                (numMul fl (Some dX) (numSub fl southeastHeight southwestHeight)))
             (numMul fl (Some dY) (numSub fl northeastHeight southeastHeight))
      else numAdd fl
             (numAdd fl southwestHeight
                (numMul fl (Some dX) (numSub fl northeastHeight northwestHeight)))
             (numMul fl (Some dY) (numSub fl northwestHeight southwestHeight)))"

definition fromEdge :: "rounding \<Rightarrow> rat \<Rightarrow> rat \<Rightarrow> rat \<Rightarrow> int \<Rightarrow> rat option" where
  \<comment> \<open>\<open>(longitude - west) * (width - 1) / (east - west)\<close>; a zero denominator gives NaN
      or an infinity\<close>
  "fromEdge fl x lo hi n =
     (if fl (hi - lo) = 0 then None
      else Some (fl (fl (fl (x - lo) * of_int (n - 1)) / fl (hi - lo))))"

definition cellLower :: "rat \<Rightarrow> int \<Rightarrow> int \<Rightarrow> int" where
  \<comment> \<open>the lower sample index of the cell of a grid coordinate, as both interpolation
      functions find it in either direction: \<open>westInteger = fromWest | 0\<close>, and
      \<open>width - 2\<close> when \<open>westInteger + 1 >= widthEdge\<close>; the upper index is one more\<close>
  "cellLower x edge n = (if ToInt32 x + 1 \<ge> edge then n - 2 else ToInt32 x)"

definition interpolateHeight ::
  "rounding \<Rightarrow> heightBuffer \<Rightarrow> nat \<Rightarrow> rat \<Rightarrow> int \<Rightarrow> bool \<Rightarrow> rectangle \<Rightarrow> int \<Rightarrow> int \<Rightarrow> rat
    \<Rightarrow> rat \<Rightarrow> rat option" where
  \<comment> \<open>When \<open>fromWest\<close> or \<open>fromSouth\<close> is not finite, \<open>dx\<close> or \<open>dy\<close> is not finite,
      and neither is the result of either formula.\<close>
  "interpolateHeight fl sourceHeights elementsPerHeight elementMultiplier stride isBigEndian
       sourceRectangle width height longitude latitude =
     (case (fromEdge fl longitude (west sourceRectangle) (east sourceRectangle) width,
            fromEdge fl latitude (south sourceRectangle) (north sourceRectangle) height) of
        (Some fromWest, Some fromSouth) \<Rightarrow>
          (let westInteger = ToInt32 fromWest;
               eastInteger = westInteger + 1;
               (westInteger, eastInteger) =
                 (if eastInteger \<ge> width then (width - 2, width - 1)
                  else (westInteger, eastInteger));
               southInteger = ToInt32 fromSouth;
               northInteger = southInteger + 1;
               (southInteger, northInteger) =
                 (if northInteger \<ge> height then (height - 2, height - 1)
                  else (southInteger, northInteger));
               dx = fl (fromWest - of_int westInteger);
               dy = fl (fromSouth - of_int southInteger);
               southInteger = height - 1 - southInteger;
               northInteger = height - 1 - northInteger;
               get = getHeight fl sourceHeights elementsPerHeight elementMultiplier stride
                       isBigEndian
           in triangleInterpolateHeight fl dx dy
                (get (southInteger * width + westInteger))
                (get (southInteger * width + eastInteger))
                (get (northInteger * width + westInteger))
                (get (northInteger * width + eastInteger)))
      | _ \<Rightarrow> None)"

definition meshCorner ::
  "rounding \<Rightarrow> (int \<Rightarrow> rat option) \<Rightarrow> rat \<Rightarrow> rat \<Rightarrow> rat \<Rightarrow> int \<Rightarrow> rat option" where
  \<comment> \<open>\<open>(encoding.decodeHeight(buffer, k) / exaggeration - heightOffset) / heightScale\<close>\<close>
  "meshCorner fl decode exaggeration heightOffset heightScale k =
     (case decode k of
        None \<Rightarrow> None
      | Some v \<Rightarrow>
          (if exaggeration = 0 \<or> heightScale = 0 then None
           else Some (fl (fl (fl (v / exaggeration) - heightOffset) / heightScale))))"

definition interpolateMeshHeight ::
  "rounding \<Rightarrow> (int \<Rightarrow> rat option) \<Rightarrow> rat \<Rightarrow> rat \<Rightarrow> rat option \<Rightarrow> rectangle \<Rightarrow> int \<Rightarrow> int
    \<Rightarrow> rat \<Rightarrow> rat \<Rightarrow> rat \<Rightarrow> rat option" where
  \<comment> \<open>The argument \<open>decode\<close> is \<open>encoding.decodeHeight\<close> applied to the mesh's vertex
      buffer, a capability of the mesh builder. An \<open>undefined\<close> skirt height compares
      false with 0.\<close>
  "interpolateMeshHeight fl decode heightOffset heightScale skirtHeight sourceRectangle width
       height longitude latitude exaggeration =
     (case (fromEdge fl longitude (west sourceRectangle) (east sourceRectangle) width,
            fromEdge fl latitude (south sourceRectangle) (north sourceRectangle) height) of
        (Some fromWest, Some fromSouth) \<Rightarrow>
          (let skirt = (case skirtHeight of Some s \<Rightarrow> s > 0 | None \<Rightarrow> False);
               (fromWest, fromSouth, width, height) =
                 (if skirt then (fl (fromWest + 1), fl (fromSouth + 1), width + 2, height + 2)
                  else (fromWest, fromSouth, width, height));
               widthEdge = (if skirt then width - 1 else width);
               westInteger = ToInt32 fromWest;
               eastInteger = westInteger + 1;
               (westInteger, eastInteger) =
                 (if eastInteger \<ge> widthEdge then (width - 2, width - 1)
                  else (westInteger, eastInteger));
               heightEdge = (if skirt then height - 1 else height);
               southInteger = ToInt32 fromSouth;
               northInteger = southInteger + 1;
               (southInteger, northInteger) =
                 (if northInteger \<ge> heightEdge then (height - 2, height - 1)
                  else (southInteger, northInteger));
               dx = fl (fromWest - of_int westInteger);
               dy = fl (fromSouth - of_int southInteger);
               southInteger = height - 1 - southInteger;
               northInteger = height - 1 - northInteger;
               corner = meshCorner fl decode exaggeration heightOffset heightScale
           in triangleInterpolateHeight fl dx dy
                (corner (southInteger * width + westInteger))
                (corner (southInteger * width + eastInteger))
                (corner (northInteger * width + westInteger))
                (corner (northInteger * width + eastInteger)))
      | _ \<Rightarrow> None)"


section \<open>Heightmap terrain data\<close>

datatype jsError = DeveloperError string | RuntimeError string | TypeError | RangeError

record heightStructure =
  heightScale :: rat
  heightOffset :: rat
  elementsPerHeight :: nat
  stride :: int
  elementMultiplier :: rat
  isBigEndian :: bool
  lowestEncodedHeight :: "rat option"
  highestEncodedHeight :: "rat option"

definition DEFAULT_STRUCTURE :: heightStructure where
  \<comment> \<open>Modelled from the spec: \<open>HeightmapTessellator.DEFAULT_STRUCTURE\<close> is not among the
      sources; the values are the defaults the spec's StructureDescriptor and the
      constructor's documentation give.\<close>
  "DEFAULT_STRUCTURE =
     \<lparr>heightScale = 1, heightOffset = 0, elementsPerHeight = 1, stride = 1,
      elementMultiplier = 256, isBigEndian = False,
      lowestEncodedHeight = None, highestEncodedHeight = None\<rparr>"

record terrainMesh =
  decodeHeight :: "int \<Rightarrow> rat option"
  exaggeration :: rat

text \<open>
  Of a \<open>TerrainMesh\<close> the functions here use the vertex buffer and the encoding only
  through \<open>encoding.decodeHeight(vertices, k)\<close>, the field \<open>decodeHeight\<close>, and
  the exaggeration. The water mask and the credits of a tile are left out.
\<close>

record heightmapTerrainData =
  tileBuffer :: "heightBuffer option"
  tileWidth :: int
  tileHeight :: int
  childTileMask :: "32 word"
  tileStructure :: heightStructure
  createdByUpsampling :: bool
  skirtHeight :: "rat option"
  tileBufferType :: elementType
  mesh :: "terrainMesh option"

definition HeightmapTerrainData ::
  "heightBuffer \<Rightarrow> int \<Rightarrow> int \<Rightarrow> 32 word option \<Rightarrow> heightStructure option \<Rightarrow> bool option
    \<Rightarrow> heightmapTerrainData" where
  \<comment> \<open>the constructor, called with the three required options; an optional option is
      \<open>None\<close> when it is not given\<close>
  "HeightmapTerrainData buffer width height tileMask struct upsampled =
     \<lparr>tileBuffer = Some buffer, tileWidth = width, tileHeight = height,
      childTileMask = (case tileMask of Some m \<Rightarrow> m | None \<Rightarrow> 15),
      tileStructure = (case struct of Some s \<Rightarrow> s | None \<Rightarrow> DEFAULT_STRUCTURE),
      createdByUpsampling = (case upsampled of Some u \<Rightarrow> u | None \<Rightarrow> False),
      skirtHeight = None, tileBufferType = bufferType buffer, mesh = None\<rparr>"

definition computeSkirtHeight :: "rat \<Rightarrow> int \<Rightarrow> rat" where
  \<comment> \<open>\<open>Math.min(levelZeroMaxError / (1 << level) * 4.0, 1000.0)\<close>; the estimate
      \<open>levelZeroMaxError\<close> comes from the terrain provider. The shift takes the level
      modulo 32 and yields a signed 32-bit value.\<close>
  "computeSkirtHeight levelZeroMaxError level =
     min (levelZeroMaxError / of_int (sint (push_bit (nat (level mod 32)) (1 :: 32 word))) * 4) 1000"

definition createMesh :: "heightmapTerrainData \<Rightarrow> rat \<Rightarrow> int \<Rightarrow> heightmapTerrainData" where
  \<comment> \<open>the synchronous part of \<open>createMesh\<close>, up to the scheduling of the worker task\<close>
  "createMesh this levelZeroMaxError level =
     this\<lparr>skirtHeight := Some (computeSkirtHeight levelZeroMaxError level)\<rparr>"

definition createMeshResolved ::
  "heightmapTerrainData \<Rightarrow> (int \<Rightarrow> rat option) \<Rightarrow> rat option \<Rightarrow> heightmapTerrainData \<times> terrainMesh" where
  \<comment> \<open>the callback of \<open>createMesh\<close>, run when the worker's vertices arrive; \<open>decode\<close>
      is the height decoder of the encoding the worker returned\<close>
  "createMeshResolved that decode exagg =
     (let that = that\<lparr>mesh := Some \<lparr>decodeHeight = decode,
                                     exaggeration = (case exagg of Some e \<Rightarrow> e | None \<Rightarrow> 1)\<rparr>\<rparr>;
          that = that\<lparr>tileBuffer := None\<rparr>
      in (that, the (mesh that)))"

definition createMeshSync ::
  "heightmapTerrainData \<Rightarrow> rat \<Rightarrow> int \<Rightarrow> (int \<Rightarrow> rat option) \<Rightarrow> rat option
    \<Rightarrow> heightmapTerrainData \<times> terrainMesh" where
  \<comment> \<open>\<open>_createMeshSync\<close>: the tessellator runs in the call; the mesh is returned\<close>
  "createMeshSync this levelZeroMaxError level decode exagg =
     (let this = this\<lparr>skirtHeight := Some (computeSkirtHeight levelZeroMaxError level)\<rparr>;
          this = this\<lparr>tileBuffer := None\<rparr>
      in (this, \<lparr>decodeHeight = decode,
                 exaggeration = (case exagg of Some e \<Rightarrow> e | None \<Rightarrow> 1)\<rparr>))"

definition HeightmapTerrainData_interpolateHeight ::
  "heightmapTerrainData \<Rightarrow> rectangle \<Rightarrow> rat \<Rightarrow> rat \<Rightarrow> jsError + rat option" where
  \<comment> \<open>Without a mesh the raw buffer is read. A buffer that is \<open>undefined\<close> makes the
      first element read throw; with no element per height nothing is read. The methods
      of a tile are modelled in exact arithmetic.\<close>
  "HeightmapTerrainData_interpolateHeight this rect longitude latitude =
     (let s = tileStructure this in
      case mesh this of
        Some m \<Rightarrow>
          Inr (interpolateMeshHeight exact (decodeHeight m) (heightOffset s) (heightScale s)
                 (skirtHeight this) rect (tileWidth this) (tileHeight this) longitude latitude
                 (exaggeration m))
      | None \<Rightarrow>
          (if tileBuffer this = None \<and> elementsPerHeight s \<noteq> 0 then Inl TypeError
           else
             let buffer = (case tileBuffer this of Some b \<Rightarrow> b | None \<Rightarrow> newBuffer ArrayElement 0);
                 heightSample =
                   interpolateHeight exact buffer (elementsPerHeight s) (elementMultiplier s)
                     (stride s)
                     (isBigEndian s) rect (tileWidth this) (tileHeight this) longitude latitude
             in Inr (case heightSample of
                       Some h \<Rightarrow> Some (h * heightScale s + heightOffset s)
                     | None \<Rightarrow> None)))"

definition lerp :: "rat \<Rightarrow> rat \<Rightarrow> rat \<Rightarrow> rat" where
  \<comment> \<open>Modelled from the spec: \<open>CesiumMath.lerp\<close> is not among the sources; the spec
      describes it as linear interpolation across the child's rectangle.\<close>
  "lerp p q t = (1 - t) * p + t * q"

definition clampEncoded :: "heightStructure \<Rightarrow> rat option \<Rightarrow> rat option" where
  \<comment> \<open>the two conditionals of \<open>upsample\<close>: an \<open>undefined\<close> bound and a non-finite sample
      compare false, which leaves the sample as it is\<close>
  "clampEncoded s heightSample =
     (let heightSample =
            (case (heightSample, lowestEncodedHeight s) of
               (Some h, Some lo) \<Rightarrow> (if h < lo then Some lo else Some h)
             | _ \<Rightarrow> heightSample)
      in case (heightSample, highestEncodedHeight s) of
           (Some h, Some hi) \<Rightarrow> (if h > hi then Some hi else Some h)
         | _ \<Rightarrow> heightSample)"

definition upsampleSample ::
  "heightmapTerrainData \<Rightarrow> terrainMesh \<Rightarrow> rectangle \<Rightarrow> rectangle \<Rightarrow> nat \<Rightarrow> nat
    \<Rightarrow> heightBuffer \<Rightarrow> heightBuffer" where
  \<comment> \<open>the body of the inner loop of \<open>upsample\<close> at row \<open>j\<close> and column \<open>i\<close>. With a
      single row or column \<open>j / (height - 1)\<close> or \<open>i / (width - 1)\<close> is NaN, and so is
      the sample.\<close>
  "upsampleSample this meshData sourceRectangle destinationRectangle j i heights =
     (let s = tileStructure this; w = tileWidth this; h = tileHeight this;
          latitude = lerp (north destinationRectangle) (south destinationRectangle)
                       (of_nat j / of_int (h - 1));
          longitude = lerp (west destinationRectangle) (east destinationRectangle)
                        (of_nat i / of_int (w - 1));
          heightSample =
            (if h = 1 \<or> w = 1 then None
             else interpolateMeshHeight exact (decodeHeight meshData) (heightOffset s)
                    (heightScale s)
                    (skirtHeight this) sourceRectangle w h longitude latitude
                    (exaggeration meshData));
          heightSample = clampEncoded s heightSample
      in setHeight exact heights (elementsPerHeight s) (elementMultiplier s)
           (powDivisor exact (elementMultiplier s) (elementsPerHeight s)) (stride s)
           (isBigEndian s) (int j * w + int i) heightSample)"

definition upsample ::
  "heightmapTerrainData \<Rightarrow> (int \<Rightarrow> int \<Rightarrow> int \<Rightarrow> rectangle) \<Rightarrow> int \<Rightarrow> int \<Rightarrow> int \<Rightarrow> int \<Rightarrow> int
    \<Rightarrow> int \<Rightarrow> jsError + heightmapTerrainData option" where
  \<comment> \<open>The first argument after the tile is \<open>tilingScheme.tileXYToRectangle\<close>. All seven
      arguments are given, so the \<open>defined\<close> guards pass. \<open>Inr None\<close> is the return
      value \<open>undefined\<close>. A negative array length makes the array constructor throw.\<close>
  "upsample this tileXYToRectangle thisX thisY thisLevel descendantX descendantY descendantLevel =
     (let levelDifference = descendantLevel - thisLevel in
      if levelDifference > 1
      then Inl (DeveloperError
             ''Upsampling through more than one level at a time is not currently supported.'')
      else
        case mesh this of
          None \<Rightarrow> Inr None
        | Some meshData \<Rightarrow>
            (let w = tileWidth this; h = tileHeight this; s = tileStructure this in
             if w * h * stride s < 0 then Inl RangeError
             else
               let heights = newBuffer (tileBufferType this) (nat (w * h * stride s));
                   sourceRectangle = tileXYToRectangle thisX thisY thisLevel;
                   destinationRectangle = tileXYToRectangle descendantX descendantY descendantLevel;
                   heights =
                     fold (\<lambda>j. fold (upsampleSample this meshData sourceRectangle
                                        destinationRectangle j) [0..<nat w])
                       [0..<nat h] heights
               in Inr (Some (HeightmapTerrainData heights w h (Some 0) (Some s) (Some True)))))"

definition isChildAvailable :: "heightmapTerrainData \<Rightarrow> int \<Rightarrow> int \<Rightarrow> int \<Rightarrow> int \<Rightarrow> bool" where
  \<comment> \<open>The four coordinates are given, so the \<open>defined\<close> guards pass.\<close>
  "isChildAvailable this thisX thisY childX childY =
     (let bitNumber = (2 :: nat);
          bitNumber = (if childX \<noteq> thisX * 2 then bitNumber + 1 else bitNumber);
          bitNumber = (if childY \<noteq> thisY * 2 then bitNumber - 2 else bitNumber)
      in (childTileMask this AND push_bit bitNumber 1) \<noteq> 0)"

definition wasCreatedByUpsampling :: "heightmapTerrainData \<Rightarrow> bool" where
  "wasCreatedByUpsampling this = createdByUpsampling this"

section \<open>The terrain cache\<close>

type_synonym quadKey = string
type_synonym terrainBuffer = "nat list"

text \<open>
  Times are seconds on the clock that \<open>JulianDate.now\<close> reads; every function that
  reads the clock takes the reading as its argument \<open>now\<close>. The cache object is an
  association list; the order of its keys plays no role.
\<close>

record cacheEntry =
  entryBuffer :: "terrainBuffer option"
  timestamp :: rat

record TerrainCache =
  cacheEntries :: "(quadKey \<times> cacheEntry) list"
  lastTidy :: rat

definition TerrainCache_new :: "rat \<Rightarrow> TerrainCache" where
  "TerrainCache_new now = \<lparr>cacheEntries = [], lastTidy = now\<rparr>"

definition TerrainCache_add :: "TerrainCache \<Rightarrow> quadKey \<Rightarrow> terrainBuffer option \<Rightarrow> rat \<Rightarrow> TerrainCache" where
  "TerrainCache_add c k buffer now =
     c\<lparr>cacheEntries := AList.update k \<lparr>entryBuffer = buffer, timestamp = now\<rparr> (cacheEntries c)\<rparr>"

definition TerrainCache_get :: "TerrainCache \<Rightarrow> quadKey \<Rightarrow> terrainBuffer option \<times> TerrainCache" where
  \<comment> \<open>the result \<open>None\<close> is \<open>undefined\<close>: no entry, or an entry whose buffer is \<open>undefined\<close>\<close>
  "TerrainCache_get c k =
     (case map_of (cacheEntries c) k of
        Some result \<Rightarrow> (entryBuffer result, c\<lparr>cacheEntries := AList.delete k (cacheEntries c)\<rparr>)
      | None \<Rightarrow> (None, c))"

definition tidyEntry :: "rat \<Rightarrow> quadKey \<Rightarrow> (quadKey \<times> cacheEntry) list \<Rightarrow> (quadKey \<times> cacheEntry) list" where
  \<comment> \<open>the body of the loop of \<open>tidy\<close> for the key \<open>k\<close>; the keys come from the object
      itself, so the entry is there\<close>
  "tidyEntry now k entries =
     (case map_of entries k of
        Some e \<Rightarrow> (if now - timestamp e > 10 then AList.delete k entries else entries)
      | None \<Rightarrow> entries)"

definition TerrainCache_tidy :: "TerrainCache \<Rightarrow> rat \<Rightarrow> TerrainCache" where
  "TerrainCache_tidy c now =
     (if now - lastTidy c > 10
      then c\<lparr>cacheEntries := fold (tidyEntry now) (map fst (cacheEntries c)) (cacheEntries c),
             lastTidy := now\<rparr>
      else c)"

datatype cacheOp = Add quadKey "terrainBuffer option" rat | Get quadKey | Tidy rat

fun applyCacheOp :: "cacheOp \<Rightarrow> TerrainCache \<Rightarrow> TerrainCache" where
  "applyCacheOp (Add k buffer now) c = TerrainCache_add c k buffer now"
| "applyCacheOp (Get k) c = snd (TerrainCache_get c k)"
| "applyCacheOp (Tidy now) c = TerrainCache_tidy c now"

fun leavesEntry :: "quadKey \<Rightarrow> rat \<Rightarrow> cacheOp \<Rightarrow> bool" where
  \<comment> \<open>an operation that neither consumes nor replaces the entry of \<open>k\<close> added at time
      \<open>t\<close>, and that reads the clock no later than 10 seconds after \<open>t\<close>\<close>
  "leavesEntry k t (Add k' buffer now) = (k' \<noteq> k)"
| "leavesEntry k t (Get k') = (k' \<noteq> k)"
| "leavesEntry k t (Tidy now) = (now - t \<le> 10)"

fun replacesEntry :: "quadKey \<Rightarrow> cacheOp \<Rightarrow> bool" where
  \<comment> \<open>an \<open>add\<close> for the key \<open>k\<close>, which puts a new entry with a new timestamp in the place
      of the one that is there\<close>
  "replacesEntry k (Add k' buffer now) = (k' = k)"
| "replacesEntry k (Get k') = False"
| "replacesEntry k (Tidy now) = False"

section \<open>The terrain provider\<close>

datatype TerrainState = UNKNOWN | NONE | SELF | PARENT

record tileInformation =
  terrainState :: "TerrainState option"
  hasTerrain :: bool
  ancestorHasTerrain :: bool
  terrainVersion :: int
  terrainProvider :: int
  childBitmask :: "32 word"

text \<open>
  The metadata object is a collaborator: \<open>getTileInformationFromQuadKey\<close> is the map
  \<open>metadata\<close> from quad keys to tile information, \<open>hasTerrain\<close> and
  \<open>childBitmask\<close> are what \<open>info.hasTerrain()\<close> and \<open>info.getChildBitmask()\<close>
  return. A terrain state \<open>None\<close> is \<open>undefined\<close>. The provider is called with
  the quad key that \<open>tileXYToQuadKey\<close> gives for the tile. Of a request only its state
  matters, and of that only whether it is \<open>CANCELLED\<close>.
\<close>

datatype requestState = CANCELLED | NotCancelled

datatype terrainData =
    GoogleEarthEnterpriseTerrainData terrainBuffer "32 word"
  | HeightmapData heightmapTerrainData

text \<open>
  The promise library is a collaborator, when.js in the version 1 that Cesium bundles: the
  callbacks of a promise run when it settles, in the order in which they were registered
  and each with the callbacks chained to it before the next one, and \<open>always (f)\<close> is
  \<open>then (f, f)\<close>. A shared promise, the chain of a fetch and its decoding that
  \<open>terrainPromises\<close> holds, is named by a number \<open>p\<close>: \<open>Shared p\<close>. The caller that
  issues the fetch is not chained to it but to the promise that \<open>always\<close> makes from it,
  \<open>Always p\<close>.
\<close>

datatype promise = Shared nat | Always nat

fun sharedOf :: "promise \<Rightarrow> nat" where
  \<comment> \<open>the shared promise that a promise hangs on\<close>
  "sharedOf (Shared p) = p"
| "sharedOf (Always p) = p"

fun settledAs :: "promise \<Rightarrow> jsError option \<Rightarrow> jsError option" where
  \<comment> \<open>how a promise settles when its shared promise is fulfilled (\<open>None\<close>) or rejected
      with an error: the callback of \<open>always\<close> returns in both cases, so the promise that
      \<open>always\<close> made is fulfilled\<close>
  "settledAs (Shared p) outcome = outcome"
| "settledAs (Always p) outcome = None"

datatype requestResult =
    Threw jsError
  | Rejected jsError
  | Resolved terrainData
  | Throttled
  | Pending promise

record fetch =
  fetchPromise :: nat
  fetchTarget :: quadKey
  fetchVersion :: int

record waiter =
  waitPromise :: promise
  waitQuadKey :: quadKey
  waitSharedRequest :: "nat option"
  waitRequest :: "nat option"

text \<open>
  \<open>fetches\<close> holds the requests that \<open>fetchArrayBuffer\<close> has handed to the transport
  and whose promise chain (fetch, then decode) has not settled. \<open>waiters\<close> holds, in the
  order of their calls, the callers whose returned promise is chained to a promise that
  has not settled (\<open>waitPromise\<close>), \<open>delivered\<close> the outcome of every returned promise
  that has.
\<close>

record provider =
  ready :: bool
  metadata :: "quadKey \<Rightarrow> tileInformation option"
  terrainCache :: TerrainCache
  terrainPromises :: "quadKey \<Rightarrow> nat option"
  terrainRequests :: "quadKey \<Rightarrow> nat option"
  requestStates :: "nat \<Rightarrow> requestState"
  fetches :: "fetch list"
  waiters :: "waiter list"
  delivered :: "(waiter \<times> requestResult) list"
  nextPromise :: nat

definition newProvider :: "(quadKey \<Rightarrow> tileInformation option) \<Rightarrow> rat \<Rightarrow> provider" where
  \<comment> \<open>the provider once its metadata is ready\<close>
  "newProvider md now =
     \<lparr>ready = True, metadata = md, terrainCache = TerrainCache_new now,
      terrainPromises = Map.empty, terrainRequests = Map.empty,
      requestStates = (\<lambda>r. NotCancelled), fetches = [], waiters = [], delivered = [],
      nextPromise = 0\<rparr>"

definition tileDoesNotExist :: jsError where
  "tileDoesNotExist = RuntimeError (''Terrain tile doesn'' @ [CHR 0x27] @ ''t exist'')"

definition failedToLoad :: jsError where
  "failedToLoad = RuntimeError ''Failed to load terrain.''"

function toString :: "nat \<Rightarrow> string" where
  \<comment> \<open>the decimal digits of a loop counter\<close>
  "toString n =
     (if n < 10 then [''0123456789'' ! n]
      else toString (n div 10) @ [''0123456789'' ! (n mod 10)])"
  by pat_completeness auto
termination
  by (relation "measure id") auto

declare toString.simps [simp del]

definition childHasTerrain :: "(quadKey \<Rightarrow> tileInformation option) \<Rightarrow> quadKey \<Rightarrow> nat \<Rightarrow> bool" where
  "childHasTerrain md k i =
     (case md (k @ toString i) of Some child \<Rightarrow> hasTerrain child | None \<Rightarrow> False)"

definition computeChildMask ::
  "quadKey \<Rightarrow> tileInformation \<Rightarrow> (quadKey \<Rightarrow> tileInformation option) \<Rightarrow> 32 word" where
  "computeChildMask k info md =
     (if terrainState info = Some PARENT
      then fold (\<lambda>i childMask. if childHasTerrain md k i then childMask OR push_bit i 1 else childMask)
             [0..<4] 0
      else childBitmask info)"

definition finishTarget ::
  "quadKey \<Rightarrow> int \<Rightarrow> provider \<Rightarrow> (requestResult + quadKey \<times> int) \<times> provider" where
  \<comment> \<open>the check \<open>terrainVersion < 0\<close> after the \<open>switch\<close>\<close>
  "finishTarget q version st =
     (if version < 0 then (Inl (Rejected tileDoesNotExist), st) else (Inr (q, version), st))"

definition resolveTarget ::
  "quadKey \<Rightarrow> rat \<Rightarrow> provider \<Rightarrow> (requestResult + quadKey \<times> int) \<times> provider" where
  \<comment> \<open>\<open>requestTileGeometry\<close> up to the comment "Load that terrain": either the call
      returns (\<open>Inl\<close>) or it has found where to get the terrain (\<open>Inr\<close>, the quad key
      \<open>q\<close> and the version)\<close>
  "resolveTarget k now st =
     (if \<not> ready st
      then (Inl (Threw (DeveloperError
              ''requestTileGeometry must not be called before the terrain provider is ready.'')), st)
      else
        case metadata st k of
          None \<Rightarrow> (Inl (Rejected tileDoesNotExist), st)
        | Some info0 \<Rightarrow>
            (let ts = (case terrainState info0 of None \<Rightarrow> UNKNOWN | Some t \<Rightarrow> t);
                 info = info0\<lparr>terrainState := Some ts\<rparr>;
                 st = st\<lparr>metadata := (metadata st)(k \<mapsto> info)\<rparr>;
                 (buffer, cache) = TerrainCache_get (terrainCache st) k;
                 st = st\<lparr>terrainCache := cache\<rparr>
             in case buffer of
                  Some b \<Rightarrow>
                    (Inl (Resolved (GoogleEarthEnterpriseTerrainData b
                            (computeChildMask k info (metadata st)))), st)
                | None \<Rightarrow>
                    (let st = st\<lparr>terrainCache := TerrainCache_tidy (terrainCache st) now\<rparr> in
                     if \<not> ancestorHasTerrain info
                     then (Inl (Resolved (HeightmapData
                             (HeightmapTerrainData (newBuffer Uint8 (16 * 16)) 16 16 None None None))), st)
                     else if ts = NONE then (Inl (Rejected tileDoesNotExist), st)
                     else
                       case ts of
                         SELF \<Rightarrow> finishTarget k (terrainVersion info) st
                       | PARENT \<Rightarrow>
                           (case metadata st (butlast k) of
                              None \<Rightarrow> (Inl (Threw TypeError), st)
                            | Some parentInfo \<Rightarrow> finishTarget (butlast k) (terrainVersion parentInfo) st)
                       | UNKNOWN \<Rightarrow>
                           (if hasTerrain info then finishTarget k (terrainVersion info) st
                            else
                              case metadata st (butlast k) of
                                None \<Rightarrow> finishTarget (butlast k) (- 1) st
                              | Some parentInfo \<Rightarrow>
                                  (if hasTerrain parentInfo
                                   then finishTarget (butlast k) (terrainVersion parentInfo) st
                                   else finishTarget (butlast k) (- 1) st))
                       | NONE \<Rightarrow> finishTarget k (- 1) st)))"

definition loadTerrain ::
  "quadKey \<Rightarrow> int \<Rightarrow> quadKey \<Rightarrow> nat option \<Rightarrow> bool \<Rightarrow> provider \<Rightarrow> requestResult \<times> provider" where
  \<comment> \<open>\<open>requestTileGeometry\<close> from "Load that terrain" on. \<open>throttled\<close> says that
      \<open>fetchArrayBuffer\<close> returns \<open>undefined\<close>. The promise returned to the caller is
      chained to the registered promise when there is one, and otherwise to the promise
      that \<open>always\<close> makes from the new one.\<close>
  "loadTerrain q version k request throttled st =
     (case terrainPromises st q of
        Some sharedPromise \<Rightarrow>
          (Pending (Shared sharedPromise),
           st\<lparr>waiters := waiters st @
                 [\<lparr>waitPromise = Shared sharedPromise, waitQuadKey = k,
                   waitSharedRequest = terrainRequests st q, waitRequest = request\<rparr>]\<rparr>)
      | None \<Rightarrow>
          (if throttled then (Throttled, st)
           else
             let p = nextPromise st in
             (Pending (Always p),
              st\<lparr>fetches := fetches st @
                    [\<lparr>fetchPromise = p, fetchTarget = q,
                      fetchVersion = (if version > 0 then version else 1)\<rparr>],
                 terrainPromises := (terrainPromises st)(q \<mapsto> p),
                 terrainRequests := (terrainRequests st)(q := request),
                 waiters := waiters st @
                    [\<lparr>waitPromise = Always p, waitQuadKey = k,
                      waitSharedRequest = request, waitRequest = request\<rparr>],
                 nextPromise := p + 1\<rparr>)))"

definition requestTileGeometry ::
  "quadKey \<Rightarrow> nat option \<Rightarrow> rat \<Rightarrow> bool \<Rightarrow> provider \<Rightarrow> requestResult \<times> provider" where
  "requestTileGeometry k request now throttled st =
     (case resolveTarget k now st of
        (Inl result, st) \<Rightarrow> (result, st)
      | (Inr (q, version), st) \<Rightarrow> loadTerrain q version k request throttled st)"

datatype fetchOutcome =
    FetchRejected jsError
  | FetchedNothing
  | DecodeRejected jsError
  | Decoded "terrainBuffer list"

text \<open>
  The promise chain of a fetch settles in one of four ways: the fetch is rejected (a
  transport failure, or the request was cancelled), the fetch resolves with no buffer,
  the decoding task is rejected, or the decoding task resolves with the decoded tiles.
\<close>

definition setTerrainState ::
  "quadKey \<Rightarrow> TerrainState \<Rightarrow> (quadKey \<Rightarrow> tileInformation option) \<Rightarrow> quadKey \<Rightarrow> tileInformation option" where
  \<comment> \<open>\<open>info.terrainState = s\<close> on the information object of \<open>k\<close>\<close>
  "setTerrainState k s md =
     (case md k of Some info \<Rightarrow> md(k \<mapsto> info\<lparr>terrainState := Some s\<rparr>) | None \<Rightarrow> md)"

definition addChild :: "quadKey \<Rightarrow> terrainBuffer list \<Rightarrow> int \<Rightarrow> rat \<Rightarrow> nat \<Rightarrow> provider \<Rightarrow> provider" where
  \<comment> \<open>the body of the loop "Add children to cache" for the counter \<open>j\<close>\<close>
  "addChild q terrainTiles prov now j st =
     (let childKey = q @ toString j in
      case metadata st childKey of
        None \<Rightarrow> st
      | Some child \<Rightarrow>
          st\<lparr>terrainCache :=
               TerrainCache_add (terrainCache st) childKey (Some (terrainTiles ! (j + 1))) now,
             metadata := (metadata st)(childKey \<mapsto>
               child\<lparr>terrainState := Some PARENT,
                     terrainProvider := (if terrainProvider child = 0 then prov
                                         else terrainProvider child)\<rparr>)\<rparr>)"

definition decoded :: "quadKey \<Rightarrow> terrainBuffer list \<Rightarrow> rat \<Rightarrow> provider \<Rightarrow> jsError option \<times> provider" where
  \<comment> \<open>the callback that receives the decoded tiles; the result is the error it throws,
      if any. An empty list of tiles has no element 0, and the loop does not run.\<close>
  "decoded q terrainTiles now st =
     (case metadata st q of
        None \<Rightarrow> (Some TypeError, st)
      | Some requestedInfo \<Rightarrow>
          (let st = st\<lparr>metadata := setTerrainState q SELF (metadata st)\<rparr>;
               st = st\<lparr>terrainCache :=
                      TerrainCache_add (terrainCache st) q
                        (case terrainTiles of [] \<Rightarrow> None | t # ts \<Rightarrow> Some t) now\<rparr>;
               prov = terrainProvider requestedInfo
           in (None, fold (addChild q terrainTiles prov now) [0..<length terrainTiles - 1] st)))"

definition deliver :: "waiter \<Rightarrow> requestResult \<Rightarrow> provider \<Rightarrow> provider" where
  "deliver w r st = st\<lparr>delivered := delivered st @ [(w, r)]\<rparr>"

definition otherwiseHandler :: "waiter \<Rightarrow> jsError \<Rightarrow> provider \<Rightarrow> provider" where
  \<comment> \<open>the \<open>otherwise\<close> callback of a caller. Reading the state of an \<open>undefined\<close>
      shared request, or writing the state of an \<open>undefined\<close> request, throws.\<close>
  "otherwiseHandler w error st =
     (case waitSharedRequest w of
        None \<Rightarrow> deliver w (Rejected TypeError) st
      | Some sharedRequest \<Rightarrow>
          (if requestStates st sharedRequest = CANCELLED
           then (case waitRequest w of
                   None \<Rightarrow> deliver w (Rejected TypeError) st
                 | Some request \<Rightarrow>
                     deliver w (Rejected error)
                       (st\<lparr>requestStates := (requestStates st)(request := CANCELLED)\<rparr>))
           else deliver w (Rejected error)
                  (st\<lparr>metadata := setTerrainState (waitQuadKey w) NONE (metadata st)\<rparr>)))"

definition callerChildMask :: "quadKey \<Rightarrow> (quadKey \<Rightarrow> tileInformation option) \<Rightarrow> 32 word" where
  \<comment> \<open>\<open>computeChildMask (quadKey, info, metadata)\<close> in the callback of a caller, where
      \<open>info\<close> is the information object of the caller's tile; it exists, since the call
      found it\<close>
  "callerChildMask k md = (case md k of Some info \<Rightarrow> computeChildMask k info md | None \<Rightarrow> 0)"

definition continuation :: "jsError option \<Rightarrow> waiter \<Rightarrow> provider \<Rightarrow> provider" where
  \<comment> \<open>the \<open>then\<close> and \<open>otherwise\<close> callbacks of one caller, run when the promise it is
      chained to has settled: fulfilled (\<open>None\<close>) or rejected with an error\<close>
  "continuation outcome w st =
     (case outcome of
        Some error \<Rightarrow> otherwiseHandler w error st
      | None \<Rightarrow>
          (let (buffer, cache) = TerrainCache_get (terrainCache st) (waitQuadKey w);
               st = st\<lparr>terrainCache := cache\<rparr>
           in case buffer of
                Some b \<Rightarrow>
                  deliver w (Resolved (GoogleEarthEnterpriseTerrainData b
                               (callerChildMask (waitQuadKey w) (metadata st)))) st
              | None \<Rightarrow> otherwiseHandler w failedToLoad st))"

definition chained :: "jsError option \<Rightarrow> waiter \<Rightarrow> provider \<Rightarrow> provider" where
  \<comment> \<open>the callbacks of one caller when the shared promise has settled with \<open>outcome\<close>\<close>
  "chained outcome w st = continuation (settledAs (waitPromise w) outcome) w st"

definition fetchChain ::
  "quadKey \<Rightarrow> fetchOutcome \<Rightarrow> rat \<Rightarrow> provider \<Rightarrow> jsError option \<times> provider" where
  \<comment> \<open>how the shared promise of a fetch for \<open>q\<close> settles: the decoded-tiles callback runs
      if there are tiles; the result is the error of the rejection, if any\<close>
  "fetchChain q outcome now st =
     (case outcome of
        FetchRejected e \<Rightarrow> (Some e, st)
      | FetchedNothing \<Rightarrow> (Some failedToLoad, st)
      | DecodeRejected e \<Rightarrow> (Some e, st)
      | Decoded terrainTiles \<Rightarrow> decoded q terrainTiles now st)"

definition callersOf :: "nat \<Rightarrow> provider \<Rightarrow> waiter list" where
  \<comment> \<open>the callers that hang on the shared promise \<open>p\<close>, the issuing one first\<close>
  "callersOf p st = filter (\<lambda>w. sharedOf (waitPromise w) = p) (waiters st)"

definition settleFetch :: "nat \<Rightarrow> fetchOutcome \<Rightarrow> rat \<Rightarrow> provider \<Rightarrow> provider" where
  \<comment> \<open>The promise chain of the fetch with the shared promise \<open>p\<close> settles: the
      decoded-tiles callback runs if there are tiles, then the \<open>always\<close> callback,
      which deletes the two entries of \<open>q\<close>, then the callbacks of the issuing caller
      and of every caller chained to the shared promise, in the order of their calls.\<close>
  "settleFetch p outcome now st =
     (case find (\<lambda>f. fetchPromise f = p) (fetches st) of
        None \<Rightarrow> st
      | Some f \<Rightarrow>
          (let q = fetchTarget f;
               (error, st) = fetchChain q outcome now st;
               st = st\<lparr>terrainPromises := (terrainPromises st)(q := None),
                       terrainRequests := (terrainRequests st)(q := None),
                       fetches := filter (\<lambda>f. fetchPromise f \<noteq> p) (fetches st)\<rparr>;
               callers = callersOf p st;
               st = st\<lparr>waiters := filter (\<lambda>w. sharedOf (waitPromise w) \<noteq> p) (waiters st)\<rparr>
           in fold (chained error) callers st))"

definition getTileDataAvailable :: "quadKey \<Rightarrow> provider \<Rightarrow> bool \<times> provider" where
  \<comment> \<open>\<open>getTileDataAvailable\<close> for a tile with the quad key \<open>k\<close>. Without information
      on the tile the answer is false (and the metadata object may be asked to load
      it).\<close>
  "getTileDataAvailable k st =
     (case metadata st k of
        None \<Rightarrow> (False, st)
      | Some info \<Rightarrow>
          (if \<not> ancestorHasTerrain info then (True, st)
           else if terrainState info = Some NONE then (False, st)
           else if terrainState info = None \<or> terrainState info = Some UNKNOWN
           then
             (let st = st\<lparr>metadata := setTerrainState k UNKNOWN (metadata st)\<rparr> in
              if \<not> hasTerrain info
              then (case metadata st (butlast k) of
                      None \<Rightarrow> (False, st)
                    | Some parentInfo \<Rightarrow> (hasTerrain parentInfo, st))
              else (True, st))
           else (True, st)))"

datatype event =
    RequestTileGeometry quadKey "nat option" rat bool
  | SettleFetch nat fetchOutcome rat
  | GetTileDataAvailable quadKey
  | CancelRequest nat

fun step :: "event \<Rightarrow> provider \<Rightarrow> provider" where
  \<comment> \<open>what can happen to a provider: a call of one of its two methods, the settling of
      a fetch, the cancellation of a request by the scheduler\<close>
  "step (RequestTileGeometry k request now throttled) st =
     snd (requestTileGeometry k request now throttled st)"
| "step (SettleFetch p outcome now) st = settleFetch p outcome now st"
| "step (GetTileDataAvailable k) st = snd (getTileDataAvailable k st)"
| "step (CancelRequest r) st = st\<lparr>requestStates := (requestStates st)(r := CANCELLED)\<rparr>"

definition run :: "event list \<Rightarrow> provider \<Rightarrow> provider" where
  "run evs st = fold step evs st"


definition terrainStateOf :: "provider \<Rightarrow> quadKey \<Rightarrow> TerrainState option" where
  "terrainStateOf st k = (case metadata st k of Some info \<Rightarrow> terrainState info | None \<Rightarrow> None)"

definition terminal :: "TerrainState option \<Rightarrow> bool" where
  "terminal s = (s = Some SELF \<or> s = Some PARENT \<or> s = Some NONE)"

section \<open>Notions for the properties of the provider\<close>


text \<open>
  Two provider states have the same coordination when they differ at most in the
  metadata, the cache, the request states and the delivered results.
\<close>

definition sameCoordination :: "provider \<Rightarrow> provider \<Rightarrow> bool" where
  "sameCoordination st st' =
     (terrainPromises st' = terrainPromises st \<and> terrainRequests st' = terrainRequests st
      \<and> fetches st' = fetches st \<and> waiters st' = waiters st \<and> nextPromise st' = nextPromise st)"

text \<open>
  A change of terrain state that keeps a state once it is \<open>SELF\<close>, \<open>PARENT\<close> or
  \<open>NONE\<close> within these three, and a step of the provider that changes the state of
  every tile in this way.
\<close>

definition stateChange :: "TerrainState option \<Rightarrow> TerrainState option \<Rightarrow> bool" where
  "stateChange s s' = (s' = s \<or> terminal s' \<or> (\<not> terminal s \<and> s' = Some UNKNOWN))"

definition changes :: "provider \<Rightarrow> provider \<Rightarrow> bool" where
  "changes st st' = (\<forall>k. stateChange (terrainStateOf st k) (terrainStateOf st' k))"








definition sampleMetadata :: "quadKey \<Rightarrow> tileInformation option" where
  "sampleMetadata k =
     (if k = ''0''
      then Some \<lparr>terrainState = None, hasTerrain = True, ancestorHasTerrain = True,
                  terrainVersion = 1, terrainProvider = 0, childBitmask = 0\<rparr>
      else None)"


section \<open>Properties of the arithmetic\<close>













lemma doubleRounding_exact: "doubleRounding exact"
  by (simp add: doubleRounding_def exact_def)


section \<open>Properties of the heightmap terrain data\<close>

lemma and_bit_test: "((w :: 32 word) AND push_bit n 1 \<noteq> 0) = bit w n"
  by (simp add: and_exp_eq_0_iff_not_bit)

lemma and_bit_numerals:
  "((w :: 32 word) AND 1 \<noteq> 0) = bit w 0"
  "((w :: 32 word) AND 2 \<noteq> 0) = bit w (Suc 0)"
  "((w :: 32 word) AND 4 \<noteq> 0) = bit w 2"
  "((w :: 32 word) AND 8 \<noteq> 0) = bit w 3"
  using and_bit_test [of w 0] and_bit_test [of w 1] and_bit_test [of w 2] and_bit_test [of w 3]
  by simp_all

lemma meshCorner_plain: "meshCorner exact decode 1 0 1 k = decode k"
  by (simp add: meshCorner_def exact_def split: option.split)

lemma fromEdge_center: "lo \<noteq> hi \<Longrightarrow> fromEdge exact ((lo + hi) / 2) lo hi 2 = Some (1 / 2)"
  by (simp add: fromEdge_def exact_def field_simps)

lemma ToInt32_half: "ToInt32 (1 / 2) = 0"
  by (simp add: ToInt32_def jsTrunc_def floor_eq_iff)

text \<open>
  C3. In every arithmetic \<open>fl\<close>, \<open>triangleInterpolateHeight\<close> takes the lower-right
  formula \<open>sw + dx * (se - sw) + dy * (ne - se)\<close> exactly when \<open>dy < dx\<close>, and the
  upper-left formula \<open>sw + dx * (ne - nw) + dy * (nw - sw)\<close> otherwise, so also on the
  diagonal \<open>dx = dy\<close>; in exact arithmetic and on finite corner heights these are the two
  formulas as real expressions. The side of the diagonal is observable: in double
  arithmetic, at \<open>dx = dy = 1/2\<close> with the corner heights \<open>sw = 0\<close>, \<open>se = 2 ^ 53\<close>,
  \<open>nw = 1\<close>, \<open>ne = 2 ^ 53 + 2\<close> the function returns \<open>2 ^ 52\<close>, the value of the
  upper-left formula, where the lower-right formula gives \<open>2 ^ 52 + 1\<close>. The raster path
  and the mesh
  path both end in this one function: each returns its result on the offsets and the four
  corner heights of the cell of the query point, the mesh path for every skirt height,
  height offset, height scale and exaggeration; and in exact arithmetic, on a mesh that
  decodes to the raster's heights with no skirt, no exaggeration, scale 1 and offset 0, the
  two paths return the same height at every point.
\<close>

theorem triangle_tie_break:
  "triangleInterpolateHeight fl dx dy sw se nw ne =
     (if dy < dx
      then numAdd fl (numAdd fl sw (numMul fl (Some dx) (numSub fl se sw)))
             (numMul fl (Some dy) (numSub fl ne se))
      else numAdd fl (numAdd fl sw (numMul fl (Some dx) (numSub fl ne nw)))
             (numMul fl (Some dy) (numSub fl nw sw)))
   \<and> triangleInterpolateHeight fl d d sw se nw ne =
       numAdd fl (numAdd fl sw (numMul fl (Some d) (numSub fl ne nw)))
         (numMul fl (Some d) (numSub fl nw sw))
   \<and> triangleInterpolateHeight exact dx dy (Some a) (Some b) (Some c) (Some e) =
       Some (if dy < dx then a + dx * (b - a) + dy * (e - b)
             else a + dx * (e - c) + dy * (c - a))
   \<and> triangleInterpolateHeight roundDouble (1 / 2) (1 / 2)
         (Some 0) (Some (2 ^ 53)) (Some 1) (Some (2 ^ 53 + 2))
       = Some (2 ^ 52)
   \<and> numAdd roundDouble
         (numAdd roundDouble (Some 0)
            (numMul roundDouble (Some (1 / 2)) (numSub roundDouble (Some (2 ^ 53)) (Some 0))))
         (numMul roundDouble (Some (1 / 2))
            (numSub roundDouble (Some (2 ^ 53 + 2)) (Some (2 ^ 53))))
       = Some (2 ^ 52 + 1)
   \<and> interpolateHeight fl hs n m st be r w h lon lat =
       (case (fromEdge fl lon (west r) (east r) w, fromEdge fl lat (south r) (north r) h) of
          (Some fromWest, Some fromSouth) \<Rightarrow>
            (let westInteger = cellLower fromWest w w;
                 southInteger = cellLower fromSouth h h;
                 get = getHeight fl hs n m st be
             in triangleInterpolateHeight fl
                  (fl (fromWest - of_int westInteger)) (fl (fromSouth - of_int southInteger))
                  (get ((h - 1 - southInteger) * w + westInteger))
                  (get ((h - 1 - southInteger) * w + (westInteger + 1)))
                  (get ((h - 1 - (southInteger + 1)) * w + westInteger))
                  (get ((h - 1 - (southInteger + 1)) * w + (westInteger + 1))))
        | _ \<Rightarrow> None)
   \<and> interpolateMeshHeight fl decode off scale skirt r w h lon lat ex =
       (case (fromEdge fl lon (west r) (east r) w, fromEdge fl lat (south r) (north r) h) of
          (Some fromWest, Some fromSouth) \<Rightarrow>
            (let skirted = (case skirt of Some s \<Rightarrow> 0 < s | None \<Rightarrow> False);
                 fromWest = (if skirted then fl (fromWest + 1) else fromWest);
                 fromSouth = (if skirted then fl (fromSouth + 1) else fromSouth);
                 width = (if skirted then w + 2 else w);
                 height = (if skirted then h + 2 else h);
                 westInteger = cellLower fromWest (if skirted then width - 1 else width) width;
                 southInteger =
                   cellLower fromSouth (if skirted then height - 1 else height) height;
                 corner = meshCorner fl decode ex off scale
             in triangleInterpolateHeight fl
                  (fl (fromWest - of_int westInteger)) (fl (fromSouth - of_int southInteger))
                  (corner ((height - 1 - southInteger) * width + westInteger))
                  (corner ((height - 1 - southInteger) * width + (westInteger + 1)))
                  (corner ((height - 1 - (southInteger + 1)) * width + westInteger))
                  (corner ((height - 1 - (southInteger + 1)) * width + (westInteger + 1))))
        | _ \<Rightarrow> None)
   \<and> interpolateMeshHeight exact (getHeight exact hs n m st be) 0 1 None r w h lon lat 1
       = interpolateHeight exact hs n m st be r w h lon lat"
proof -
  have tri: "triangleInterpolateHeight fl dx dy sw se nw ne =
     (if dy < dx
      then numAdd fl (numAdd fl sw (numMul fl (Some dx) (numSub fl se sw)))
             (numMul fl (Some dy) (numSub fl ne se))
      else numAdd fl (numAdd fl sw (numMul fl (Some dx) (numSub fl ne nw)))
             (numMul fl (Some dy) (numSub fl nw sw)))"
    by (simp add: triangleInterpolateHeight_def)
  have diag: "triangleInterpolateHeight fl d d sw se nw ne =
       numAdd fl (numAdd fl sw (numMul fl (Some d) (numSub fl ne nw)))
         (numMul fl (Some d) (numSub fl nw sw))"
    by (simp add: triangleInterpolateHeight_def)
  have ex: "triangleInterpolateHeight exact dx dy (Some a) (Some b) (Some c) (Some e) =
       Some (if dy < dx then a + dx * (b - a) + dy * (e - b)
             else a + dx * (e - c) + dy * (c - a))"
    by (simp add: triangleInterpolateHeight_def numAdd_def numSub_def numMul_def exact_def)
  have up: "triangleInterpolateHeight roundDouble (1 / 2) (1 / 2)
         (Some 0) (Some (2 ^ 53)) (Some 1) (Some (2 ^ 53 + 2))
       = Some (2 ^ 52)"
    by code_simp
  have low: "numAdd roundDouble
         (numAdd roundDouble (Some 0)
            (numMul roundDouble (Some (1 / 2)) (numSub roundDouble (Some (2 ^ 53)) (Some 0))))
         (numMul roundDouble (Some (1 / 2))
            (numSub roundDouble (Some (2 ^ 53 + 2)) (Some (2 ^ 53))))
       = Some (2 ^ 52 + 1)"
    by code_simp
  have raster: "interpolateHeight fl hs n m st be r w h lon lat =
       (case (fromEdge fl lon (west r) (east r) w, fromEdge fl lat (south r) (north r) h) of
          (Some fromWest, Some fromSouth) \<Rightarrow>
            (let westInteger = cellLower fromWest w w;
                 southInteger = cellLower fromSouth h h;
                 get = getHeight fl hs n m st be
             in triangleInterpolateHeight fl
                  (fl (fromWest - of_int westInteger)) (fl (fromSouth - of_int southInteger))
                  (get ((h - 1 - southInteger) * w + westInteger))
                  (get ((h - 1 - southInteger) * w + (westInteger + 1)))
                  (get ((h - 1 - (southInteger + 1)) * w + westInteger))
                  (get ((h - 1 - (southInteger + 1)) * w + (westInteger + 1))))
        | _ \<Rightarrow> None)"
    by (simp add: interpolateHeight_def cellLower_def Let_def split: option.split)
  have mesh: "interpolateMeshHeight fl decode off scale skirt r w h lon lat ex =
       (case (fromEdge fl lon (west r) (east r) w, fromEdge fl lat (south r) (north r) h) of
          (Some fromWest, Some fromSouth) \<Rightarrow>
            (let skirted = (case skirt of Some s \<Rightarrow> 0 < s | None \<Rightarrow> False);
                 fromWest = (if skirted then fl (fromWest + 1) else fromWest);
                 fromSouth = (if skirted then fl (fromSouth + 1) else fromSouth);
                 width = (if skirted then w + 2 else w);
                 height = (if skirted then h + 2 else h);
                 westInteger = cellLower fromWest (if skirted then width - 1 else width) width;
                 southInteger =
                   cellLower fromSouth (if skirted then height - 1 else height) height;
                 corner = meshCorner fl decode ex off scale
             in triangleInterpolateHeight fl
                  (fl (fromWest - of_int westInteger)) (fl (fromSouth - of_int southInteger))
                  (corner ((height - 1 - southInteger) * width + westInteger))
                  (corner ((height - 1 - southInteger) * width + (westInteger + 1)))
                  (corner ((height - 1 - (southInteger + 1)) * width + westInteger))
                  (corner ((height - 1 - (southInteger + 1)) * width + (westInteger + 1))))
        | _ \<Rightarrow> None)"
    by (simp add: interpolateMeshHeight_def cellLower_def Let_def add.commute
        split: option.split)
  have same: "interpolateMeshHeight exact (getHeight exact hs n m st be) 0 1 None r w h lon lat 1
       = interpolateHeight exact hs n m st be r w h lon lat"
    by (simp add: interpolateMeshHeight_def interpolateHeight_def meshCorner_plain Let_def
        split: option.split)
  from tri diag ex up low raster mesh same show ?thesis by (intro conjI)
qed

text \<open>
  C4, as the code has it. For a parent tile \<open>(x, y)\<close> and any mask,
  \<open>isChildAvailable\<close> returns bit 2 of the mask for the child \<open>(2x, 2y)\<close>
  (northwest), bit 3 for \<open>(2x + 1, 2y)\<close> (northeast), bit 0 for \<open>(2x, 2y + 1)\<close>
  (southwest) and bit 1 for \<open>(2x + 1, 2y + 1)\<close> (southeast): tile rows are counted
  from the north.
\<close>

theorem isChildAvailable_bits:
  "isChildAvailable this x y (2 * x) (2 * y) = bit (childTileMask this) 2
   \<and> isChildAvailable this x y (2 * x + 1) (2 * y) = bit (childTileMask this) 3
   \<and> isChildAvailable this x y (2 * x) (2 * y + 1) = bit (childTileMask this) 0
   \<and> isChildAvailable this x y (2 * x + 1) (2 * y + 1) = bit (childTileMask this) 1"
  by (simp add: isChildAvailable_def and_bit_numerals Let_def)

text \<open>
  With the mask 1 (only bit 0 set), the child \<open>(0, 0)\<close> of the tile \<open>(0, 0)\<close> is
  reported as not available: the answer is not bit 0 of the mask.
\<close>

theorem isChildAvailable_southwest_counterexample:
  "\<not> (isChildAvailable (HeightmapTerrainData (newBuffer Uint8 256) 16 16 (Some 1) None None) 0 0 0 0
        = bit (1 :: 32 word) 0)"
  by (simp add: isChildAvailable_def HeightmapTerrainData_def Let_def)

text \<open>
  C10. \<open>isChildAvailable\<close> depends on the coordinates only through the two tests
  \<open>childX \<noteq> thisX * 2\<close> and \<open>childY \<noteq> thisY * 2\<close>; when both hold, whether or not
  the coordinates are those of a child, it returns bit 1 of the mask, the bit of the
  southeast child.
\<close>

theorem isChildAvailable_non_child:
  "isChildAvailable this thisX thisY childX childY =
     bit (childTileMask this)
       ((if childX \<noteq> thisX * 2 then 3 else 2) - (if childY \<noteq> thisY * 2 then 2 else 0))
   \<and> (childX \<noteq> thisX * 2 \<and> childY \<noteq> thisY * 2 \<longrightarrow>
        isChildAvailable this thisX thisY childX childY = bit (childTileMask this) 1)"
  by (simp add: isChildAvailable_def and_bit_numerals Let_def)

theorem isChildAvailable_non_child_witness:
  "(5 :: int) \<noteq> 0 * 2 \<and> (7 :: int) \<noteq> 0 * 2
   \<and> isChildAvailable (HeightmapTerrainData (newBuffer Uint8 256) 16 16 (Some 2) None None) 0 0 5 7
   \<and> bit (childTileMask (HeightmapTerrainData (newBuffer Uint8 256) 16 16 (Some 2) None None)) 1"
  using isChildAvailable_non_child
          [where childX = 5 and thisX = 0 and childY = 7 and thisY = 0
             and this = "HeightmapTerrainData (newBuffer Uint8 256) 16 16 (Some 2) None None"]
  by (simp add: HeightmapTerrainData_def)

text \<open>
  C8. The raster tile of width 2 and height 2 with the buffer \<open>[10, 20, 30, 40]\<close>
  (north row first) and the default structure has the height 25 at the centre of its
  rectangle, whatever the element type of the buffer.
\<close>

theorem center_of_two_by_two:
  assumes "west r < east r" and "south r < north r"
  shows "HeightmapTerrainData_interpolateHeight
       (HeightmapTerrainData (bufferOfList ty [10, 20, 30, 40]) 2 2 None None None) r
       ((west r + east r) / 2) ((south r + north r) / 2) = Inr (Some 25)"
  using assms
  by (simp add: HeightmapTerrainData_interpolateHeight_def HeightmapTerrainData_def
      DEFAULT_STRUCTURE_def interpolateHeight_def fromEdge_center ToInt32_half Let_def
      getHeight_def accumulate_def readElement_def bufferOfList_def inBounds_def
      triangleInterpolateHeight_def numAdd_def numSub_def numMul_def exact_def numeral_2_eq_2)

theorem center_of_two_by_two_witness:
  "west \<lparr>west = 0, south = 0, east = 1, north = 1\<rparr> < east \<lparr>west = 0, south = 0, east = 1, north = 1\<rparr>
   \<and> south \<lparr>west = 0, south = 0, east = 1, north = 1\<rparr> < north \<lparr>west = 0, south = 0, east = 1, north = 1\<rparr>
   \<and> HeightmapTerrainData_interpolateHeight
       (HeightmapTerrainData (bufferOfList Uint8 [10, 20, 30, 40]) 2 2 None None None)
       \<lparr>west = 0, south = 0, east = 1, north = 1\<rparr> (1 / 2) (1 / 2) = Inr (Some 25)"
  using center_of_two_by_two [of "\<lparr>west = 0, south = 0, east = 1, north = 1\<rparr>" Uint8]
  by simp

text \<open>
  C7. \<open>upsample\<close> rejects a descendant more than one level below the tile with a
  \<open>DeveloperError\<close>, and on a tile without a mesh it never produces a child tile: when
  the level difference is at most one it returns \<open>undefined\<close>.
\<close>

theorem upsample_preconditions:
  "(descendantLevel - thisLevel > 1 \<longrightarrow>
      upsample this tileXYToRectangle thisX thisY thisLevel descendantX descendantY descendantLevel
        = Inl (DeveloperError
            ''Upsampling through more than one level at a time is not currently supported.''))
   \<and> (mesh this = None \<longrightarrow>
        (\<forall>child. upsample this tileXYToRectangle thisX thisY thisLevel descendantX descendantY
                   descendantLevel \<noteq> Inr (Some child))
        \<and> (descendantLevel - thisLevel \<le> 1 \<longrightarrow>
             upsample this tileXYToRectangle thisX thisY thisLevel descendantX descendantY
               descendantLevel = Inr None))"
  by (simp add: upsample_def Let_def)

theorem upsample_preconditions_witness:
  "(3 :: int) - 1 > 1
   \<and> upsample (HeightmapTerrainData (bufferOfList Uint8 [10, 20, 30, 40]) 2 2 None None None)
        (\<lambda>x y l. \<lparr>west = 0, south = 0, east = 1, north = 1\<rparr>) 0 0 1 0 0 3
       = Inl (DeveloperError
            ''Upsampling through more than one level at a time is not currently supported.'')
   \<and> mesh (HeightmapTerrainData (bufferOfList Uint8 [10, 20, 30, 40]) 2 2 None None None) = None
   \<and> (2 :: int) - 1 \<le> 1
   \<and> upsample (HeightmapTerrainData (bufferOfList Uint8 [10, 20, 30, 40]) 2 2 None None None)
        (\<lambda>x y l. \<lparr>west = 0, south = 0, east = 1, north = 1\<rparr>) 0 0 1 0 0 2 = Inr None"
  using upsample_preconditions
          [where descendantLevel = 3 and thisLevel = 1
             and this = "HeightmapTerrainData (bufferOfList Uint8 [10, 20, 30, 40]) 2 2 None None None"
             and tileXYToRectangle = "\<lambda>x y l. \<lparr>west = 0, south = 0, east = 1, north = 1\<rparr>"
             and thisX = 0 and thisY = 0 and descendantX = 0 and descendantY = 0]
        upsample_preconditions
          [where descendantLevel = 2 and thisLevel = 1
             and this = "HeightmapTerrainData (bufferOfList Uint8 [10, 20, 30, 40]) 2 2 None None None"
             and tileXYToRectangle = "\<lambda>x y l. \<lparr>west = 0, south = 0, east = 1, north = 1\<rparr>"
             and thisX = 0 and thisY = 0 and descendantX = 0 and descendantY = 0]
  by (simp add: HeightmapTerrainData_def)

text \<open>
  The callback of \<open>createMesh\<close> stores the mesh and drops the buffer.
\<close>

lemma createMeshResolved_supersedes:
  "tileBuffer (fst (createMeshResolved that decode exagg)) = None
   \<and> mesh (fst (createMeshResolved that decode exagg)) \<noteq> None"
  by (simp add: createMeshResolved_def Let_def)

text \<open>
  C9. After \<open>_createMeshSync\<close> a freshly constructed tile holds no height
  representation at all: the buffer is dropped and the mesh, which the asynchronous
  \<open>createMesh\<close> stores in the tile, is only returned. With the default structure the
  next \<open>interpolateHeight\<close> on the tile throws.
\<close>

theorem createMeshSync_leaves_no_mesh:
  "tileBuffer (fst (createMeshSync (HeightmapTerrainData buffer w h tileMask struct upsampled)
                      levelZeroMaxError level decode exagg)) = None
   \<and> mesh (fst (createMeshSync (HeightmapTerrainData buffer w h tileMask struct upsampled)
                      levelZeroMaxError level decode exagg)) = None
   \<and> HeightmapTerrainData_interpolateHeight
        (fst (createMeshSync (HeightmapTerrainData buffer w h tileMask None upsampled)
                      levelZeroMaxError level decode exagg)) r lon lat = Inl TypeError"
  by (simp add: createMeshSync_def HeightmapTerrainData_def Let_def
      HeightmapTerrainData_interpolateHeight_def DEFAULT_STRUCTURE_def)


section \<open>Properties of the terrain cache\<close>

lemma map_of_tidyEntry:
  "map_of (tidyEntry now a es) k =
     (if k = a
      then (case map_of es a of
              Some e \<Rightarrow> if now - timestamp e > 10 then None else Some e
            | None \<Rightarrow> None)
      else map_of es k)"
  by (simp add: tidyEntry_def delete_conv' split: option.split)

lemma map_of_tidy_loop:
  "map_of (fold (tidyEntry now) ks es) k =
     (if k \<in> set ks
      then (case map_of es k of
              Some e \<Rightarrow> if now - timestamp e > 10 then None else Some e
            | None \<Rightarrow> None)
      else map_of es k)"
proof (induction ks arbitrary: es)
  case Nil
  then show ?case by simp
next
  case (Cons a ks)
  show ?case
    by (simp add: Cons.IH map_of_tidyEntry split: option.split)
qed

lemma tidy_lookup:
  "map_of (cacheEntries (TerrainCache_tidy c now)) k =
     (if now - lastTidy c > 10
      then (case map_of (cacheEntries c) k of
              Some e \<Rightarrow> if now - timestamp e > 10 then None else Some e
            | None \<Rightarrow> None)
      else map_of (cacheEntries c) k)"
proof (cases "k \<in> set (map fst (cacheEntries c))")
  case True
  then show ?thesis by (simp add: TerrainCache_tidy_def map_of_tidy_loop)
next
  case False
  then have "map_of (cacheEntries c) k = None"
    by (simp add: map_of_eq_None_iff)
  with False show ?thesis by (simp add: TerrainCache_tidy_def map_of_tidy_loop)
qed

lemma add_lookup:
  "map_of (cacheEntries (TerrainCache_add c k' buffer now)) k =
     (if k = k' then Some \<lparr>entryBuffer = buffer, timestamp = now\<rparr> else map_of (cacheEntries c) k)"
  by (simp add: TerrainCache_add_def update_conv')

lemma get_lookup:
  "map_of (cacheEntries (snd (TerrainCache_get c k'))) k =
     (if k = k' then None else map_of (cacheEntries c) k)"
  by (simp add: TerrainCache_get_def delete_conv' split: option.split)

lemma get_result:
  "fst (TerrainCache_get c k) = (case map_of (cacheEntries c) k of Some e \<Rightarrow> entryBuffer e | None \<Rightarrow> None)"
  by (simp add: TerrainCache_get_def split: option.split)

lemma leavesEntry_keeps:
  "leavesEntry k t op \<Longrightarrow> map_of (cacheEntries c) k = Some \<lparr>entryBuffer = b, timestamp = t\<rparr>
    \<Longrightarrow> map_of (cacheEntries (applyCacheOp op c)) k = Some \<lparr>entryBuffer = b, timestamp = t\<rparr>"
  by (cases op) (simp_all add: add_lookup get_lookup tidy_lookup)

lemma leavesEntry_all_keep:
  "list_all (leavesEntry k t) ops \<Longrightarrow> map_of (cacheEntries c) k = Some \<lparr>entryBuffer = b, timestamp = t\<rparr>
    \<Longrightarrow> map_of (cacheEntries (fold applyCacheOp ops c)) k = Some \<lparr>entryBuffer = b, timestamp = t\<rparr>"
  by (induction ops arbitrary: c) (simp_all add: leavesEntry_keeps)

lemma not_replaced_keeps:
  "\<not> replacesEntry k op
    \<Longrightarrow> map_of (cacheEntries c) k = None
        \<or> map_of (cacheEntries c) k = Some \<lparr>entryBuffer = b, timestamp = t\<rparr>
    \<Longrightarrow> map_of (cacheEntries (applyCacheOp op c)) k = None
        \<or> map_of (cacheEntries (applyCacheOp op c)) k = Some \<lparr>entryBuffer = b, timestamp = t\<rparr>"
  by (cases op) (auto simp add: add_lookup get_lookup tidy_lookup split: if_splits)

lemma not_replaced_all_keep:
  "list_all (\<lambda>op. \<not> replacesEntry k op) ops
    \<Longrightarrow> map_of (cacheEntries c) k = None
        \<or> map_of (cacheEntries c) k = Some \<lparr>entryBuffer = b, timestamp = t\<rparr>
    \<Longrightarrow> map_of (cacheEntries (fold applyCacheOp ops c)) k = None
        \<or> map_of (cacheEntries (fold applyCacheOp ops c)) k
            = Some \<lparr>entryBuffer = b, timestamp = t\<rparr>"
proof (induction ops arbitrary: c)
  case Nil
  then show ?case by simp
next
  case (Cons op ops)
  from Cons.prems have "\<not> replacesEntry k op" and rest: "list_all (\<lambda>op. \<not> replacesEntry k op) ops"
    by simp_all
  from not_replaced_keeps [OF this(1) Cons.prems(2)]
  have "map_of (cacheEntries (applyCacheOp op c)) k = None
        \<or> map_of (cacheEntries (applyCacheOp op c)) k = Some \<lparr>entryBuffer = b, timestamp = t\<rparr>" .
  from Cons.IH [OF rest this] show ?case by simp
qed

text \<open>
  C6, as the code has it. An entry added at time \<open>t\<close> stays in the cache through
  every operation that neither consumes nor replaces it and that reads the clock no
  later than 10 seconds after \<open>t\<close>, so a \<open>get\<close> then returns its buffer. After any
  operations that do not replace the entry (an \<open>add\<close> for its key), whenever they read the
  clock, a \<open>tidy\<close> that runs more than 10 seconds after \<open>t\<close> leaves no entry for the key
  when more than 10 seconds have also passed since the last sweep. A \<open>tidy\<close> at most
  10 seconds after the last sweep changes nothing in the cache.
\<close>

theorem cache_ttl:
  "(list_all (leavesEntry k t) ops \<longrightarrow>
      fst (TerrainCache_get (fold applyCacheOp ops (TerrainCache_add c k buffer t)) k) = buffer)
   \<and> (list_all (\<lambda>op. \<not> replacesEntry k op) ops' \<and> now - t > 10
        \<and> now - lastTidy (fold applyCacheOp ops' (TerrainCache_add c k buffer t)) > 10 \<longrightarrow>
        map_of (cacheEntries
          (TerrainCache_tidy (fold applyCacheOp ops' (TerrainCache_add c k buffer t)) now)) k = None)
   \<and> (now' - lastTidy c' \<le> 10 \<longrightarrow> TerrainCache_tidy c' now' = c')"
proof -
  have start: "map_of (cacheEntries (TerrainCache_add c k buffer t)) k
                 = Some \<lparr>entryBuffer = buffer, timestamp = t\<rparr>"
    by (simp add: add_lookup)
  have kept: "list_all (leavesEntry k t) ops \<longrightarrow>
      fst (TerrainCache_get (fold applyCacheOp ops (TerrainCache_add c k buffer t)) k) = buffer"
    by (auto simp: get_result leavesEntry_all_keep [OF _ start])
  have evicted: "list_all (\<lambda>op. \<not> replacesEntry k op) ops' \<and> now - t > 10
        \<and> now - lastTidy (fold applyCacheOp ops' (TerrainCache_add c k buffer t)) > 10 \<longrightarrow>
        map_of (cacheEntries
          (TerrainCache_tidy (fold applyCacheOp ops' (TerrainCache_add c k buffer t)) now)) k = None"
  proof (intro impI, elim conjE)
    assume ops: "list_all (\<lambda>op. \<not> replacesEntry k op) ops'" and old: "now - t > 10"
      and swept: "now - lastTidy (fold applyCacheOp ops' (TerrainCache_add c k buffer t)) > 10"
    from not_replaced_all_keep [OF ops disjI2 [OF start]]
    have "map_of (cacheEntries (fold applyCacheOp ops' (TerrainCache_add c k buffer t))) k = None
          \<or> map_of (cacheEntries (fold applyCacheOp ops' (TerrainCache_add c k buffer t))) k
              = Some \<lparr>entryBuffer = buffer, timestamp = t\<rparr>" .
    with old swept
    show "map_of (cacheEntries
          (TerrainCache_tidy (fold applyCacheOp ops' (TerrainCache_add c k buffer t)) now)) k = None"
      by (auto simp add: tidy_lookup)
  qed
  have gated: "now' - lastTidy c' \<le> 10 \<longrightarrow> TerrainCache_tidy c' now' = c'"
    by (simp add: TerrainCache_tidy_def)
  from kept evicted gated show ?thesis by (intro conjI)
qed

theorem cache_ttl_witness:
  "list_all (leavesEntry ''0'' 5) [Tidy 8, Add ''1'' (Some [2]) 9, Get ''1'']
   \<and> fst (TerrainCache_get
        (fold applyCacheOp [Tidy 8, Add ''1'' (Some [2]) 9, Get ''1'']
           (TerrainCache_add (TerrainCache_new 0) ''0'' (Some [7]) 5)) ''0'') = Some [7]
   \<and> list_all (\<lambda>op. \<not> replacesEntry ''0'' op) [Tidy 11, Tidy 16]
   \<and> (22 :: rat) - 5 > 10
   \<and> 22 - lastTidy (fold applyCacheOp [Tidy 11, Tidy 16]
           (TerrainCache_add (TerrainCache_new 0) ''0'' (Some [7]) 5)) > 10
   \<and> map_of (cacheEntries
        (TerrainCache_tidy
           (fold applyCacheOp [Tidy 11, Tidy 16]
              (TerrainCache_add (TerrainCache_new 0) ''0'' (Some [7]) 5)) 22)) ''0'' = None
   \<and> 16 - lastTidy (TerrainCache_tidy
                       (TerrainCache_add (TerrainCache_new 0) ''0'' (Some [7]) 5) 11) \<le> 10
   \<and> TerrainCache_tidy
        (TerrainCache_tidy (TerrainCache_add (TerrainCache_new 0) ''0'' (Some [7]) 5) 11) 16
       = TerrainCache_tidy (TerrainCache_add (TerrainCache_new 0) ''0'' (Some [7]) 5) 11"
  using cache_ttl [where k = "''0''" and t = 5 and ops = "[Tidy 8, Add ''1'' (Some [2]) 9, Get ''1'']"
                     and ops' = "[Tidy 11, Tidy 16]"
                     and c = "TerrainCache_new 0" and buffer = "Some [7]" and now = 22
                     and c' = "TerrainCache_tidy
                                 (TerrainCache_add (TerrainCache_new 0) ''0'' (Some [7]) 5) 11"
                     and now' = 16]
  by (simp add: TerrainCache_new_def TerrainCache_add_def TerrainCache_tidy_def TerrainCache_get_def
      tidyEntry_def)

text \<open>
  A \<open>tidy\<close> within 10 seconds of the last sweep does nothing: the entry added at
  time 5 survives the sweep at time 11 and is still there after the \<open>tidy\<close> at time
  16, 11 seconds after it was added.
\<close>

theorem tidy_rate_limit_counterexample:
  "(16 :: rat) - 5 > 10
   \<and> map_of (cacheEntries
        (TerrainCache_tidy
           (TerrainCache_tidy (TerrainCache_add (TerrainCache_new 0) ''0'' (Some [7]) 5) 11) 16))
        ''0'' = Some \<lparr>entryBuffer = Some [7], timestamp = 5\<rparr>"
  by (simp add: TerrainCache_new_def TerrainCache_add_def TerrainCache_tidy_def tidyEntry_def)


section \<open>Properties of the height codec\<close>

lemma jsTrunc_of_int [simp]: "jsTrunc (of_int z) = z"
  by (simp add: jsTrunc_def)



lemma write_bufferType [simp]: "bufferType (writeElement hs p v) = bufferType hs"
  by (simp add: writeElement_def)

lemma write_bufferLength:
  "bufferType hs \<noteq> ArrayElement \<Longrightarrow> bufferLength (writeElement hs p v) = bufferLength hs"
  by (simp add: writeElement_def)















lemma inBounds_write:
  "bufferType hs \<noteq> ArrayElement \<Longrightarrow> inBounds (writeElement hs p v) p' = inBounds hs p'"
  by (simp add: inBounds_def write_bufferLength)







text \<open>
  Beyond \<open>2 ^ 53\<close> the round trip fails in double arithmetic. With 20 elements per
  height and the multiplier 7 the first divisor \<open>7 ^ 19\<close> is not a double, and the
  divisors that the loop derives from it by division drift away from the powers of 7: the
  height 49, written into a \<open>Uint8Array\<close> of 20 elements, reads back as 48.
\<close>

theorem height_round_trip_counterexample:
  "(1 :: nat) \<le> 20 \<and> (1 :: int) \<le> 7 \<and> (0 :: int) \<le> 49 \<and> (49 :: int) < 7 ^ 20
   \<and> digitsFit (bufferType (newBuffer Uint8 20)) 7
   \<and> (0 :: int) \<le> 0 * 1 \<and> (0 :: int) * 1 + int 20 \<le> int (bufferLength (newBuffer Uint8 20))
   \<and> getHeight roundDouble
        (setHeight roundDouble (newBuffer Uint8 20) 20 7 (powDivisor roundDouble 7 20) 1 False 0
           (Some 49))
        20 7 1 False 0 = Some 48"
proof -
  have "getHeight roundDouble
        (setHeight roundDouble (newBuffer Uint8 20) 20 7 (powDivisor roundDouble 7 20) 1 False 0
           (Some 49))
        20 7 1 False 0 = Some 48"
    by code_simp
  then show ?thesis by (simp add: newBuffer_def)
qed


section \<open>Properties of the terrain provider\<close>

lemma sameCoordination_refl [simp]: "sameCoordination st st"
  by (simp add: sameCoordination_def)


lemma finishTarget_frame: "sameCoordination st (snd (finishTarget q v st))"
  by (simp add: finishTarget_def)


lemma resolveTarget_delivered: "delivered (snd (resolveTarget k now st)) = delivered st"
  by (simp add: resolveTarget_def finishTarget_def Let_def
      split: option.split TerrainState.split prod.split)







lemma otherwiseHandler_frame: "sameCoordination st (otherwiseHandler w e st)"
  by (simp add: otherwiseHandler_def deliver_def sameCoordination_def split: option.split)

lemma otherwiseHandler_delivered:
  "map fst (delivered (otherwiseHandler w e st)) = map fst (delivered st) @ [w]"
  by (simp add: otherwiseHandler_def deliver_def split: option.split)


lemma continuation_delivered:
  "map fst (delivered (continuation outcome w st)) = map fst (delivered st) @ [w]"
  by (simp add: continuation_def Let_def otherwiseHandler_delivered deliver_def
      split: option.split prod.split)


lemma chained_delivered:
  "map fst (delivered (chained outcome w st)) = map fst (delivered st) @ [w]"
  by (simp add: chained_def continuation_delivered)


lemma fold_chained_delivered:
  "map fst (delivered (fold (chained outcome) ws st)) = map fst (delivered st) @ ws"
  by (induction ws arbitrary: st) (simp_all add: chained_delivered)
































lemma terrainStateOf_update:
  "terrainStateOf (st\<lparr>metadata := (metadata st)(k \<mapsto> info)\<rparr>) k' =
     (if k' = k then terrainState info else terrainStateOf st k')"
  by (simp add: terrainStateOf_def)













text \<open>
  The callers of one shared promise do not always receive one outcome. The tile \<open>0\<close> is
  requested twice; the second call is chained to the promise of the first. The fetch
  succeeds: the first caller takes the buffer from the cache and is resolved, and the
  second finds the cache empty and is rejected.
\<close>

theorem shared_outcome_counterexample:
  "terrainPromises
     (run [RequestTileGeometry ''0'' (Some 0) 0 False] (newProvider sampleMetadata 0)) ''0''
     = Some 0
   \<and> fst (resolveTarget ''0'' 1
        (run [RequestTileGeometry ''0'' (Some 0) 0 False] (newProvider sampleMetadata 0)))
       = Inr (''0'', 1)
   \<and> fst (requestTileGeometry ''0'' (Some 1) 1 False
        (run [RequestTileGeometry ''0'' (Some 0) 0 False] (newProvider sampleMetadata 0)))
       = Pending (Shared 0)
   \<and> map snd (delivered
        (run [RequestTileGeometry ''0'' (Some 0) 0 False,
              RequestTileGeometry ''0'' (Some 1) 1 False,
              SettleFetch 0 (Decoded [[7]]) 2] (newProvider sampleMetadata 0)))
       = [Resolved (GoogleEarthEnterpriseTerrainData [7] 0), Rejected failedToLoad]"
  by (simp add: run_def newProvider_def requestTileGeometry_def resolveTarget_def
      sampleMetadata_def TerrainCache_new_def TerrainCache_get_def TerrainCache_tidy_def
      TerrainCache_add_def finishTarget_def loadTerrain_def Let_def callersOf_def
      settleFetch_def fetchChain_def decoded_def setTerrainState_def chained_def
      continuation_def otherwiseHandler_def deliver_def callerChildMask_def computeChildMask_def)


lemma sample_first_request:
  "run [RequestTileGeometry ''0'' (Some 0) 0 False] (newProvider sampleMetadata 0) =
     \<lparr>ready = True,
      metadata = sampleMetadata(''0'' \<mapsto>
        \<lparr>terrainState = Some UNKNOWN, hasTerrain = True, ancestorHasTerrain = True,
         terrainVersion = 1, terrainProvider = 0, childBitmask = 0\<rparr>),
      terrainCache = \<lparr>cacheEntries = [], lastTidy = 0\<rparr>,
      terrainPromises = [''0'' \<mapsto> 0], terrainRequests = [''0'' \<mapsto> 0],
      requestStates = (\<lambda>r. NotCancelled),
      fetches = [\<lparr>fetchPromise = 0, fetchTarget = ''0'', fetchVersion = 1\<rparr>],
      waiters = [\<lparr>waitPromise = Always 0, waitQuadKey = ''0'', waitSharedRequest = Some 0,
                  waitRequest = Some 0\<rparr>],
      delivered = [], nextPromise = 1\<rparr>"
  by (simp add: run_def newProvider_def requestTileGeometry_def resolveTarget_def
      sampleMetadata_def TerrainCache_new_def TerrainCache_get_def TerrainCache_tidy_def
      finishTarget_def loadTerrain_def Let_def)


lemma stateChange_refl [simp]: "stateChange s s"
  by (simp add: stateChange_def)

lemma stateChange_trans: "stateChange a b \<Longrightarrow> stateChange b c \<Longrightarrow> stateChange a c"
  by (auto simp: stateChange_def)

lemma changes_refl [simp]: "changes st st"
  by (simp add: changes_def)

lemma changes_trans: "changes a b \<Longrightarrow> changes b c \<Longrightarrow> changes a c"
  unfolding changes_def by (blast intro: stateChange_trans)

lemma changes_same_metadata: "metadata st' = metadata st \<Longrightarrow> changes st st'"
  by (simp add: changes_def terrainStateOf_def)

lemma changes_set_terminal:
  "s \<noteq> UNKNOWN \<Longrightarrow> metadata st' = setTerrainState k s (metadata st) \<Longrightarrow> changes st st'"
  by (cases s)
     (auto simp: changes_def stateChange_def terminal_def terrainStateOf_def setTerrainState_def
       split: option.split)

lemma changes_set_unknown:
  "terrainStateOf st k = None \<or> terrainStateOf st k = Some UNKNOWN
    \<Longrightarrow> metadata st' = setTerrainState k UNKNOWN (metadata st) \<Longrightarrow> changes st st'"
  by (auto simp: changes_def stateChange_def terminal_def terrainStateOf_def setTerrainState_def
       split: option.splits)

lemma resolveTarget_metadata:
  "metadata (snd (resolveTarget k now st)) = metadata st
   \<or> (\<exists>info0. metadata st k = Some info0
        \<and> metadata (snd (resolveTarget k now st)) =
            (metadata st)(k \<mapsto> info0\<lparr>terrainState :=
               Some (case terrainState info0 of None \<Rightarrow> UNKNOWN | Some t \<Rightarrow> t)\<rparr>))"
  by (simp add: resolveTarget_def finishTarget_def Let_def
      split: option.split TerrainState.split prod.split)

lemma changes_first_visit:
  assumes "metadata st k = Some info0"
    and "metadata st' = (metadata st)(k \<mapsto> info0\<lparr>terrainState :=
               Some (case terrainState info0 of None \<Rightarrow> UNKNOWN | Some t \<Rightarrow> t)\<rparr>)"
  shows "changes st st'"
  unfolding changes_def
proof
  fix k'
  show "stateChange (terrainStateOf st k') (terrainStateOf st' k')"
  proof (cases "k' = k")
    case True
    with assms show ?thesis
      by (cases "terrainState info0")
         (simp_all add: stateChange_def terminal_def terrainStateOf_def)
  next
    case False
    with assms show ?thesis
      by (simp add: terrainStateOf_def)
  qed
qed

lemma resolveTarget_changes: "changes st (snd (resolveTarget k now st))"
  using resolveTarget_metadata [of k now st]
  by (auto intro: changes_same_metadata changes_first_visit)

lemma loadTerrain_changes: "changes st (snd (loadTerrain q v k request throttled st))"
  by (rule changes_same_metadata) (simp add: loadTerrain_def Let_def split: option.split)

lemma requestTileGeometry_changes: "changes st (snd (requestTileGeometry k request now throttled st))"
proof -
  obtain r st1 where res: "resolveTarget k now st = (r, st1)"
    by (cases "resolveTarget k now st")
  with resolveTarget_changes [of st k now] have st1: "changes st st1" by simp
  show ?thesis
  proof (cases r)
    case (Inl result)
    with res st1 show ?thesis by (simp add: requestTileGeometry_def)
  next
    case (Inr target)
    obtain q v where "target = (q, v)" by (cases target)
    with Inr res changes_trans [OF st1 loadTerrain_changes] show ?thesis
      by (simp add: requestTileGeometry_def)
  qed
qed

lemma addChild_changes: "changes st (addChild q tiles prov now j st)"
  by (auto simp: addChild_def Let_def changes_def stateChange_def terminal_def terrainStateOf_def
      split: option.split)

lemma fold_addChild_changes: "changes st (fold (addChild q tiles prov now) js st)"
proof (induction js arbitrary: st)
  case Nil
  show ?case by simp
next
  case (Cons j js)
  show ?case
    using changes_trans [OF addChild_changes Cons.IH] by simp
qed

lemma decoded_changes: "changes st (snd (decoded q tiles now st))"
proof (cases "metadata st q")
  case None
  then show ?thesis by (simp add: decoded_def)
next
  case (Some info)
  let ?st1 = "st\<lparr>metadata := setTerrainState q SELF (metadata st),
                 terrainCache := TerrainCache_add (terrainCache st) q
                    (case tiles of [] \<Rightarrow> None | t # ts \<Rightarrow> Some t) now\<rparr>"
  have "changes st ?st1"
    by (rule changes_set_terminal [where s = SELF and k = q]) simp_all
  from changes_trans [OF this fold_addChild_changes]
  show ?thesis using Some by (simp add: decoded_def Let_def)
qed

lemma otherwiseHandler_changes: "changes st (otherwiseHandler w e st)"
proof -
  have "changes st (st\<lparr>metadata := setTerrainState (waitQuadKey w) NONE (metadata st)\<rparr>)"
    by (rule changes_set_terminal [where s = NONE and k = "waitQuadKey w"]) simp_all
  then have "changes st (deliver w r (st\<lparr>metadata := setTerrainState (waitQuadKey w) NONE (metadata st)\<rparr>))" for r
    by (simp add: changes_def terrainStateOf_def deliver_def)
  moreover have "changes st (deliver w r (st\<lparr>requestStates := rs\<rparr>))" for r rs
    by (simp add: changes_def terrainStateOf_def deliver_def)
  moreover have "changes st (deliver w r st)" for r
    by (simp add: changes_def terrainStateOf_def deliver_def)
  ultimately show ?thesis
    by (simp add: otherwiseHandler_def split: option.split)
qed

lemma continuation_changes: "changes st (continuation outcome w st)"
proof -
  have c: "changes st (st\<lparr>terrainCache := c\<rparr>)" for c
    by (rule changes_same_metadata) simp
  have o: "changes st (otherwiseHandler w e (st\<lparr>terrainCache := c\<rparr>))" for c e
    by (rule changes_trans [OF c otherwiseHandler_changes])
  have d: "changes st (deliver w r (st\<lparr>terrainCache := c\<rparr>))" for c r
    by (rule changes_same_metadata) (simp add: deliver_def)
  show ?thesis
    by (simp add: continuation_def Let_def otherwiseHandler_changes o d
        split: option.split prod.split)
qed

lemma fold_chained_changes: "changes st (fold (chained outcome) ws st)"
proof (induction ws arbitrary: st)
  case Nil
  show ?case by simp
next
  case (Cons w ws)
  have "changes st (chained outcome w st)" by (simp add: chained_def continuation_changes)
  from changes_trans [OF this Cons.IH] show ?case by simp
qed


lemma settleFetch_changes: "changes st (settleFetch p outcome now st)"
proof (cases "find (\<lambda>f. fetchPromise f = p) (fetches st)")
  case None
  then show ?thesis by (simp add: settleFetch_def)
next
  case (Some f)
  let ?q = "fetchTarget f"
  obtain error st1 where o:
    "fetchChain ?q outcome now st = (error, st1)"
    by (cases "fetchChain ?q outcome now st")
  have "st1 = st \<or> (\<exists>tiles. st1 = snd (decoded ?q tiles now st))"
  proof (cases outcome)
    case (Decoded tiles)
    with o have "decoded ?q tiles now st = (error, st1)" by (simp add: fetchChain_def)
    then have "st1 = snd (decoded ?q tiles now st)" by simp
    then show ?thesis by blast
  qed (use o in \<open>auto simp: fetchChain_def\<close>)
  then have c1: "changes st st1"
    by (auto simp: decoded_changes)
  let ?st2 = "st1\<lparr>terrainPromises := (terrainPromises st1)(?q := None),
                  terrainRequests := (terrainRequests st1)(?q := None),
                  fetches := filter (\<lambda>f. fetchPromise f \<noteq> p) (fetches st1),
                  waiters := filter (\<lambda>w. sharedOf (waitPromise w) \<noteq> p) (waiters st1)\<rparr>"
  have c2: "changes st1 ?st2"
    by (rule changes_same_metadata) simp
  have eq: "settleFetch p outcome now st =
              fold (chained error) (filter (\<lambda>w. sharedOf (waitPromise w) = p) (waiters st1)) ?st2"
    unfolding settleFetch_def callersOf_def Some option.case Let_def o prod.case by simp
  show ?thesis
    unfolding eq
    by (rule changes_trans [OF changes_trans [OF c1 c2] fold_chained_changes])
qed

lemma getTileDataAvailable_changes: "changes st (snd (getTileDataAvailable k st))"
proof (cases "metadata st k")
  case None
  then show ?thesis by (simp add: getTileDataAvailable_def)
next
  case (Some info)
  have u: "changes st (st\<lparr>metadata := setTerrainState k UNKNOWN (metadata st)\<rparr>)"
    if "terrainState info = None \<or> terrainState info = Some UNKNOWN"
    using that Some
    by (intro changes_set_unknown [where k = k]) (auto simp: terrainStateOf_def)
  show ?thesis
    using Some u
    by (auto simp: getTileDataAvailable_def Let_def split: option.split)
qed

lemma step_changes: "changes st (step ev st)"
proof (cases ev)
  case (RequestTileGeometry k request now throttled)
  then show ?thesis by (simp add: requestTileGeometry_changes)
next
  case (SettleFetch p outcome now)
  then show ?thesis by (simp add: settleFetch_changes)
next
  case (GetTileDataAvailable k)
  then show ?thesis by (simp add: getTileDataAvailable_changes)
next
  case (CancelRequest r)
  then show ?thesis by (simp add: changes_same_metadata)
qed

lemma run_changes: "changes st (run evs st)"
  unfolding run_def
proof (induction evs arbitrary: st)
  case Nil
  show ?case by simp
next
  case (Cons ev evs)
  show ?case
    using changes_trans [OF step_changes Cons.IH] by simp
qed

text \<open>
  C5, as the code has it. No operation of the provider (a request, the settling of a
  fetch with any outcome, an availability probe, a cancellation) moves a tile whose
  terrain state is \<open>SELF\<close>, \<open>PARENT\<close> or \<open>NONE\<close> out of these three states, and
  a tile in state \<open>UNKNOWN\<close> stays there or moves to one of the three. So a tile
  that has reached one of the three states is in one of them after any run of the
  provider.
\<close>

theorem terminal_states_closed:
  "(terminal (terrainStateOf st k) \<longrightarrow> terminal (terrainStateOf (step ev st) k))
   \<and> (terrainStateOf st k = Some UNKNOWN \<longrightarrow>
        terrainStateOf (step ev st) k = Some UNKNOWN \<or> terminal (terrainStateOf (step ev st) k))
   \<and> (terminal (terrainStateOf st k) \<longrightarrow> terminal (terrainStateOf (run evs st) k))"
  using step_changes [of st ev, unfolded changes_def, rule_format, of k]
    run_changes [of st evs, unfolded changes_def, rule_format, of k]
  by (auto simp: stateChange_def terminal_def)

lemma sample_second_request:
  "run [RequestTileGeometry ''0'' (Some 0) 0 False, SettleFetch 0 (Decoded [[7]]) 1,
        RequestTileGeometry ''0'' (Some 2) 2 False] (newProvider sampleMetadata 0) =
     \<lparr>ready = True,
      metadata = sampleMetadata(''0'' \<mapsto>
        \<lparr>terrainState = Some SELF, hasTerrain = True, ancestorHasTerrain = True,
         terrainVersion = 1, terrainProvider = 0, childBitmask = 0\<rparr>),
      terrainCache = \<lparr>cacheEntries = [], lastTidy = 0\<rparr>,
      terrainPromises = [''0'' \<mapsto> 1], terrainRequests = [''0'' \<mapsto> 2],
      requestStates = (\<lambda>r. NotCancelled),
      fetches = [\<lparr>fetchPromise = 1, fetchTarget = ''0'', fetchVersion = 1\<rparr>],
      waiters = [\<lparr>waitPromise = Always 1, waitQuadKey = ''0'', waitSharedRequest = Some 2,
                  waitRequest = Some 2\<rparr>],
      delivered = [(\<lparr>waitPromise = Always 0, waitQuadKey = ''0'', waitSharedRequest = Some 0,
                     waitRequest = Some 0\<rparr>,
                    Resolved (GoogleEarthEnterpriseTerrainData [7] 0))],
      nextPromise = 2\<rparr>"
  by (simp add: run_def newProvider_def requestTileGeometry_def resolveTarget_def
      sampleMetadata_def TerrainCache_new_def TerrainCache_get_def TerrainCache_tidy_def
      TerrainCache_add_def finishTarget_def loadTerrain_def Let_def settleFetch_def fetchChain_def
      callersOf_def chained_def callerChildMask_def decoded_def
      setTerrainState_def continuation_def deliver_def computeChildMask_def fun_upd_twist)

text \<open>
  A tile does leave a terminal state for another one. The tile \<open>0\<close> is fetched and
  becomes \<open>SELF\<close>; it is requested again, and when this second fetch is rejected the
  tile becomes \<open>NONE\<close>.
\<close>

theorem failed_refetch_counterexample:
  "terrainStateOf
     (run [RequestTileGeometry ''0'' (Some 0) 0 False, SettleFetch 0 (Decoded [[7]]) 1,
           RequestTileGeometry ''0'' (Some 2) 2 False] (newProvider sampleMetadata 0)) ''0''
     = Some SELF
   \<and> terrainStateOf
       (step (SettleFetch (Suc 0) (FetchRejected failedToLoad) 3)
          (run [RequestTileGeometry ''0'' (Some 0) 0 False, SettleFetch 0 (Decoded [[7]]) 1,
                RequestTileGeometry ''0'' (Some 2) 2 False] (newProvider sampleMetadata 0))) ''0''
     = Some NONE"
  by (simp add: sample_second_request terrainStateOf_def settleFetch_def fetchChain_def
      callersOf_def chained_def Let_def continuation_def TerrainCache_get_def otherwiseHandler_def
      deliver_def setTerrainState_def sampleMetadata_def)

theorem terminal_states_closed_witness:
  "terminal (terrainStateOf
     (run [RequestTileGeometry ''0'' (Some 0) 0 False, SettleFetch 0 (Decoded [[7]]) 1,
           RequestTileGeometry ''0'' (Some 2) 2 False] (newProvider sampleMetadata 0)) ''0'')
   \<and> terminal (terrainStateOf
       (step (SettleFetch (Suc 0) (FetchRejected failedToLoad) 3)
          (run [RequestTileGeometry ''0'' (Some 0) 0 False, SettleFetch 0 (Decoded [[7]]) 1,
                RequestTileGeometry ''0'' (Some 2) 2 False] (newProvider sampleMetadata 0))) ''0'')
   \<and> terrainStateOf
        (run [RequestTileGeometry ''0'' (Some 0) 0 False] (newProvider sampleMetadata 0)) ''0''
       = Some UNKNOWN
   \<and> terminal (terrainStateOf
        (step (SettleFetch 0 (Decoded [[7]]) 1)
          (run [RequestTileGeometry ''0'' (Some 0) 0 False] (newProvider sampleMetadata 0))) ''0'')"
  using terminal_states_closed
    [where st = "run [RequestTileGeometry ''0'' (Some 0) 0 False, SettleFetch 0 (Decoded [[7]]) 1,
           RequestTileGeometry ''0'' (Some 2) 2 False] (newProvider sampleMetadata 0)"
       and k = "''0''" and ev = "SettleFetch (Suc 0) (FetchRejected failedToLoad) 3"]
    terminal_states_closed
    [where st = "run [RequestTileGeometry ''0'' (Some 0) 0 False] (newProvider sampleMetadata 0)"
       and k = "''0''" and ev = "SettleFetch 0 (Decoded [[7]]) 1"]
  by (simp add: sample_second_request sample_first_request terrainStateOf_def terminal_def
      settleFetch_def fetchChain_def callersOf_def chained_def callerChildMask_def Let_def
      decoded_def setTerrainState_def continuation_def otherwiseHandler_def deliver_def
      TerrainCache_add_def TerrainCache_get_def computeChildMask_def sampleMetadata_def)


end
